theory Spec2Isabelle
  imports Complex_Main
begin

section \<open>JavaScript values and the coercions the handlers rely on\<close>

text \<open>
  The three programs (gateway, users service, products service) are Express handlers
  over JSON request bodies. A body field can hold any JSON value, and the handlers
  apply JavaScript's coercions to it (\<^verbatim>\<open>!x\<close>, \<^verbatim>\<open>x <= 0\<close>, \<^verbatim>\<open>===\<close>, \<^verbatim>\<open>parseInt\<close>,
  \<^verbatim>\<open>parseFloat\<close>), so the values and the coercions are modelled first.

  Numbers: a JavaScript number is an IEEE 754 double. A finite double is written as the
  rational it stands for (\<^verbatim>\<open>-0\<close> is \<open>0\<close>), next to the three special values. Not every
  rational is a double: wherever JavaScript makes a number out of text (\<^verbatim>\<open>JSON.parse\<close> of
  a request body, \<^verbatim>\<open>parseInt\<close>, \<^verbatim>\<open>parseFloat\<close>, ToNumber of a string) the exact value is
  rounded by \<open>round_double\<close> below, to the nearest double or to an infinity. A request
  body is the result of \<^verbatim>\<open>JSON.parse\<close>, so the numbers in it are doubles or infinities:
  the literal \<open>r\<close> arrives as \<open>json_number r\<close>. Strings are lists of code units below 256.
\<close>

datatype jsnum = Fin rat | NaN | PosInf | NegInf

subsection \<open>Rounding to a double\<close>

text \<open>Round to nearest, ties to even, with 53 significant bits, exponents from
  \<open>-1022\<close> to \<open>1023\<close>, gradual underflow below \<open>2\<^sup>-\<^sup>1\<^sup>0\<^sup>2\<^sup>2\<close> and overflow to an
  infinity from \<open>2\<^sup>1\<^sup>0\<^sup>2\<^sup>4\<close> on (IEEE 754 binary64, as ECMAScript prescribes).
  \<open>bit_length n\<close> is the number of binary digits of \<open>n > 0\<close>, and \<open>ilog2 a\<close> is
  \<open>\<lfloor>log\<^sub>2 a\<rfloor>\<close> for \<open>a > 0\<close>.\<close>

function bit_length :: "int \<Rightarrow> int" where
  "bit_length n = (if n \<le> 0 then 0 else 1 + bit_length (n div 2))"
  by pat_completeness auto
termination
  by (relation "measure nat") auto

declare bit_length.simps [simp del]

definition pow2 :: "int \<Rightarrow> rat" where
  "pow2 e = (if 0 \<le> e then 2 ^ nat e else 1 / 2 ^ nat (- e))"

definition ilog2 :: "rat \<Rightarrow> int" where
  "ilog2 a = (if 1 \<le> a then bit_length \<lfloor>a\<rfloor> - 1 else - bit_length (\<lceil>1 / a\<rceil> - 1))"

definition round_half_even :: "rat \<Rightarrow> int" where
  "round_half_even x =
    (let f = \<lfloor>x\<rfloor>; d = x - of_int f
     in if d < 1 / 2 then f else if 1 / 2 < d then f + 1 else if even f then f else f + 1)"

definition round_double :: "rat \<Rightarrow> jsnum" where
  "round_double r =
    (if r = 0 then Fin 0
     else
      (let a = \<bar>r\<bar>;
           q = max (ilog2 a) (- 1022) - 52;
           m = round_half_even (a / pow2 q);
           v = of_int m * pow2 q
       in if 2 ^ 1024 \<le> v then (if r < 0 then NegInf else PosInf)
          else Fin (if r < 0 then - v else v)))"

fun round_num :: "jsnum \<Rightarrow> jsnum" where
  "round_num (Fin r) = round_double r"
| "round_num n = n"

datatype json =
    JUndefined
  | JNull
  | JBool bool
  | JNum jsnum
  | JStr string
  | JArr "json list"
  | JObj "(string \<times> json) list"

text \<open>What \<^verbatim>\<open>JSON.parse\<close> makes of the number literal with the exact value \<open>r\<close>.\<close>

definition json_number :: "rat \<Rightarrow> json" where
  "json_number r = JNum (round_double r)"

text \<open>\<^verbatim>\<open>obj.k\<close> for the field names the handlers destructure (\<open>name\<close>, \<open>email\<close>,
  \<open>price\<close>, ...): an own property of a parsed JSON object, else \<^verbatim>\<open>undefined\<close>.
  The list of an object holds its properties, each key once.\<close>

fun field :: "json \<Rightarrow> string \<Rightarrow> json" where
  "field (JObj kvs) k = (case map_of kvs k of Some v \<Rightarrow> v | None \<Rightarrow> JUndefined)"
| "field _ k = JUndefined"

text \<open>ToBoolean: what \<^verbatim>\<open>if (x)\<close>, \<^verbatim>\<open>!x\<close> and \<^verbatim>\<open>x || d\<close> test.\<close>

fun truthy :: "json \<Rightarrow> bool" where
  "truthy JUndefined = False"
| "truthy JNull = False"
| "truthy (JBool b) = b"
| "truthy (JNum (Fin r)) = (r \<noteq> 0)"
| "truthy (JNum NaN) = False"
| "truthy (JNum PosInf) = True"
| "truthy (JNum NegInf) = True"
| "truthy (JStr s) = (s \<noteq> [])"
| "truthy (JArr xs) = True"
| "truthy (JObj kvs) = True"

text \<open>\<^verbatim>\<open>a === b\<close> where one side is a value of the current request: primitives are
  compared by value (\<open>NaN\<close> equals nothing), and an array or object of a freshly parsed
  request is a new reference, equal to no stored value.\<close>

fun strict_eq :: "json \<Rightarrow> json \<Rightarrow> bool" where
  "strict_eq JUndefined JUndefined = True"
| "strict_eq JNull JNull = True"
| "strict_eq (JBool a) (JBool b) = (a = b)"
| "strict_eq (JNum a) (JNum b) = (a \<noteq> NaN \<and> a = b)"
| "strict_eq (JStr a) (JStr b) = (a = b)"
| "strict_eq _ _ = False"

subsection \<open>Scanning numbers in strings\<close>

definition is_space :: "char \<Rightarrow> bool" where
  "is_space c = (c = CHR 0x09 \<or> c = CHR 0x0A \<or> c = CHR 0x0B \<or> c = CHR 0x0C
     \<or> c = CHR 0x0D \<or> c = CHR 0x20 \<or> c = CHR 0xA0)"

definition digit_value :: "char \<Rightarrow> int option" where
  "digit_value =
     map_of [(CHR ''0'', 0), (CHR ''1'', 1), (CHR ''2'', 2), (CHR ''3'', 3), (CHR ''4'', 4),
             (CHR ''5'', 5), (CHR ''6'', 6), (CHR ''7'', 7), (CHR ''8'', 8), (CHR ''9'', 9),
             (CHR ''a'', 10), (CHR ''b'', 11), (CHR ''c'', 12), (CHR ''d'', 13),
             (CHR ''e'', 14), (CHR ''f'', 15),
             (CHR ''A'', 10), (CHR ''B'', 11), (CHR ''C'', 12), (CHR ''D'', 13),
             (CHR ''E'', 14), (CHR ''F'', 15)]"

definition is_radix_digit :: "int \<Rightarrow> char \<Rightarrow> bool" where
  "is_radix_digit R c = (case digit_value c of Some d \<Rightarrow> d < R | None \<Rightarrow> False)"

definition digits_value :: "int \<Rightarrow> string \<Rightarrow> int" where
  "digits_value R ds =
     foldl (\<lambda>a c. a * R + (case digit_value c of Some d \<Rightarrow> d | None \<Rightarrow> 0)) 0 ds"

text \<open>\<^verbatim>\<open>parseInt(string)\<close> with no radix argument (ECMAScript \<open>parseInt\<close>, steps 1 to 16):
  leading white space is skipped, then an optional sign, then \<^verbatim>\<open>0x\<close>/\<^verbatim>\<open>0X\<close> switches to
  radix 16, then the longest run of digits of the radix is read; no digit gives \<open>NaN\<close>,
  and the integer read is rounded to a double.\<close>

definition parseInt_str :: "string \<Rightarrow> jsnum" where
  "parseInt_str inputString =
    (let S = dropWhile is_space inputString;
         sign = (if take 1 S = ''-'' then -1 else 1 :: int);
         S1 = (if take 1 S = ''+'' \<or> take 1 S = ''-'' then drop 1 S else S);
         hex = (take 2 S1 = ''0x'' \<or> take 2 S1 = ''0X'');
         R = (if hex then 16 else 10);
         S2 = (if hex then drop 2 S1 else S1);
         Z = takeWhile (is_radix_digit R) S2
     in if Z = [] then NaN else round_double (of_int (sign * digits_value R Z)))"

definition pow10 :: "int \<Rightarrow> rat" where
  "pow10 e = (if 0 \<le> e then 10 ^ nat e else 1 / 10 ^ nat (- e))"

text \<open>The grammar \<open>StrDecimalLiteral\<close> shared by \<^verbatim>\<open>parseFloat\<close> and \<^verbatim>\<open>Number\<close>: each
  scanner returns the value of the longest prefix that is a literal and the rest of the
  string, or \<open>None\<close> when no prefix is one.\<close>

definition scan_exponent :: "string \<Rightarrow> (int \<times> string) option" where
  "scan_exponent s =
    (case s of
       [] \<Rightarrow> None
     | c # r \<Rightarrow>
        if c = CHR ''e'' \<or> c = CHR ''E'' then
          (let sg = (if take 1 r = ''-'' then -1 else 1 :: int);
               r1 = (if take 1 r = ''-'' \<or> take 1 r = ''+'' then drop 1 r else r);
               ds = takeWhile (is_radix_digit 10) r1
           in if ds = [] then None
              else Some (sg * digits_value 10 ds, dropWhile (is_radix_digit 10) r1))
        else None)"

definition scan_unsigned_decimal :: "string \<Rightarrow> (jsnum \<times> string) option" where
  "scan_unsigned_decimal s =
    (if take 8 s = ''Infinity'' then Some (PosInf, drop 8 s)
     else
      (let ip = takeWhile (is_radix_digit 10) s;
           r1 = dropWhile (is_radix_digit 10) s;
           dot = (take 1 r1 = ''.'');
           fp = (if dot then takeWhile (is_radix_digit 10) (drop 1 r1) else []);
           r2 = (if dot then dropWhile (is_radix_digit 10) (drop 1 r1) else r1)
       in if ip = [] \<and> fp = [] then None
          else
           (let m = of_int (digits_value 10 ip) + of_int (digits_value 10 fp) / 10 ^ length fp
            in case scan_exponent r2 of
                 Some (e, r3) \<Rightarrow> Some (Fin (m * pow10 e), r3)
               | None \<Rightarrow> Some (Fin m, r2))))"

fun negate :: "jsnum \<Rightarrow> jsnum" where
  "negate (Fin r) = Fin (- r)"
| "negate NaN = NaN"
| "negate PosInf = NegInf"
| "negate NegInf = PosInf"

definition scan_decimal :: "string \<Rightarrow> (jsnum \<times> string) option" where
  "scan_decimal s =
    (if take 1 s = ''-'' then map_option (\<lambda>(v, r). (negate v, r)) (scan_unsigned_decimal (drop 1 s))
     else if take 1 s = ''+'' then scan_unsigned_decimal (drop 1 s)
     else scan_unsigned_decimal s)"

text \<open>\<^verbatim>\<open>parseFloat(string)\<close>: leading white space skipped, longest literal prefix, its
  value rounded to a double.\<close>

definition parseFloat_str :: "string \<Rightarrow> jsnum" where
  "parseFloat_str s =
    (case scan_decimal (dropWhile is_space s) of
       None \<Rightarrow> NaN
     | Some (v, r) \<Rightarrow> round_num v)"

text \<open>ToNumber of a string (\<open>StringToNumber\<close>): white space trimmed at both ends,
  the empty string is 0, the whole rest must be one literal: decimal, or an unsigned
  \<^verbatim>\<open>0x\<close>, \<^verbatim>\<open>0o\<close>, \<^verbatim>\<open>0b\<close> integer; its value is rounded to a double.\<close>

definition radix_literal :: "int \<Rightarrow> string \<Rightarrow> jsnum" where
  "radix_literal R ds =
    (if ds \<noteq> [] \<and> list_all (is_radix_digit R) ds
     then round_double (of_int (digits_value R ds)) else NaN)"

definition string_to_number :: "string \<Rightarrow> jsnum" where
  "string_to_number s =
    (let t = rev (dropWhile is_space (rev (dropWhile is_space s)))
     in if t = [] then Fin 0
        else if take 2 t = ''0x'' \<or> take 2 t = ''0X'' then radix_literal 16 (drop 2 t)
        else if take 2 t = ''0o'' \<or> take 2 t = ''0O'' then radix_literal 8 (drop 2 t)
        else if take 2 t = ''0b'' \<or> take 2 t = ''0B'' then radix_literal 2 (drop 2 t)
        else (case scan_decimal t of
                Some (v, r) \<Rightarrow> if r = [] then round_num v else NaN
              | None \<Rightarrow> NaN))"

subsection \<open>Coercions of arbitrary values\<close>

text \<open>ToNumber, as \<^verbatim>\<open>price <= 0\<close> applies it. An array is first turned into the
  string of its elements joined by commas (\<open>null\<close> as the empty string), so the empty
  array is 0, a one-element array is its element's string read as a number, and a longer
  one holds a comma and is \<open>NaN\<close>; an object is \<^verbatim>\<open>"[object Object]"\<close>, hence \<open>NaN\<close>.\<close>

fun toNumber :: "json \<Rightarrow> jsnum" where
  "toNumber JUndefined = NaN"
| "toNumber JNull = Fin 0"
| "toNumber (JBool b) = Fin (if b then 1 else 0)"
| "toNumber (JNum n) = n"
| "toNumber (JStr s) = string_to_number s"
| "toNumber (JObj kvs) = NaN"
| "toNumber (JArr []) = Fin 0"
| "toNumber (JArr [JUndefined]) = Fin 0"
| "toNumber (JArr [JNull]) = Fin 0"
| "toNumber (JArr [JBool b]) = NaN"
| "toNumber (JArr [JNum n]) = n"
| "toNumber (JArr [JStr s]) = string_to_number s"
| "toNumber (JArr [JObj kvs]) = NaN"
| "toNumber (JArr [JArr ys]) = toNumber (JArr ys)"
| "toNumber (JArr (x # y # zs)) = NaN"

text \<open>\<^verbatim>\<open>x <= 0\<close>: false when \<open>x\<close> is not a number after ToNumber.\<close>

definition le_zero :: "json \<Rightarrow> bool" where
  "le_zero x = (case toNumber x of Fin r \<Rightarrow> r \<le> 0 | NaN \<Rightarrow> False
                 | PosInf \<Rightarrow> False | NegInf \<Rightarrow> True)"

text \<open>\<^verbatim>\<open>parseFloat(x)\<close> is \<^verbatim>\<open>parseFloat(String(x))\<close>. A number prints to a string that
  reads back as itself; of an array only the first element counts, since the comma
  after it ends every literal; \<^verbatim>\<open>"true"\<close>, \<^verbatim>\<open>"null"\<close>, \<^verbatim>\<open>"undefined"\<close> and
  \<^verbatim>\<open>"[object Object]"\<close> start no literal.\<close>

fun parseFloat :: "json \<Rightarrow> jsnum" where
  "parseFloat (JNum n) = n"
| "parseFloat (JStr s) = parseFloat_str s"
| "parseFloat (JArr (JNum n # xs)) = n"
| "parseFloat (JArr (JStr s # xs)) = parseFloat_str s"
| "parseFloat (JArr (JArr ys # xs)) = parseFloat (JArr ys)"
| "parseFloat _ = NaN"

text \<open>\<^verbatim>\<open>parseInt(n)\<close> for a number \<open>n\<close> is \<^verbatim>\<open>parseInt(String(n))\<close>. For
  \<open>10\<^sup>-\<^sup>6 \<le> |n| < 10\<^sup>2\<^sup>1\<close> (and for 0) the string is positional, and the integer part
  is read: truncation towards 0. Outside that range the string is in exponent
  notation, \<^verbatim>\<open>d.ddde+21\<close> or \<^verbatim>\<open>d.ddde-7\<close>, and only the leading digit is read.
  \<^verbatim>\<open>"NaN"\<close> and \<^verbatim>\<open>"Infinity"\<close> give \<open>NaN\<close>.

  The digits of \<^verbatim>\<open>String(n)\<close> are the shortest decimal that rounds to \<open>n\<close>. Let \<open>d\<close> be
  the leading digit of the exact value of \<open>n > 0\<close>, so that \<open>lo = d\<cdot>10\<^sup>k \<le> n < (d+1)\<cdot>10\<^sup>k = hi\<close>.
  A one-digit decimal that rounds to \<open>n\<close> is \<open>lo\<close> or \<open>hi\<close>; when \<open>hi\<close> is one, and \<open>lo\<close> is
  not or is farther from \<open>n\<close>, the string starts with the digit of \<open>hi\<close> (the double next
  to \<open>10\<^sup>2\<^sup>3\<close> prints as \<^verbatim>\<open>1e+23\<close>). In every other case the shortest decimal starts
  with \<open>d\<close>.\<close>

function lead_scale :: "int \<Rightarrow> int \<times> int" where
  "lead_scale n =
    (if n < 10 then (n, 1) else (case lead_scale (n div 10) of (d, s) \<Rightarrow> (d, 10 * s)))"
  by pat_completeness auto
termination
  by (relation "measure nat") auto

function lead_small :: "int \<Rightarrow> int \<Rightarrow> int \<Rightarrow> int \<times> int" where
  "lead_small p q t =
    (if p \<le> 0 \<or> q \<le> p then (p div q, t) else lead_small (10 * p) q (10 * t))"
  by pat_completeness auto
termination
  by (relation "measure (\<lambda>(p, q, t). nat (q - p))") auto

declare lead_scale.simps [simp del] lead_small.simps [simp del]

text \<open>\<open>lead_bounds x = (d, lo, hi)\<close> for \<open>x > 0\<close>.\<close>

definition lead_bounds :: "rat \<Rightarrow> int \<times> rat \<times> rat" where
  "lead_bounds x =
    (if 1 \<le> x
     then (case lead_scale \<lfloor>x\<rfloor> of (d, s) \<Rightarrow> (d, of_int (d * s), of_int ((d + 1) * s)))
     else (case quotient_of x of (p, q) \<Rightarrow>
             (case lead_small p q 1 of (d, t) \<Rightarrow>
                (d, of_int d / of_int t, of_int (d + 1) / of_int t))))"

definition shortest_lead :: "rat \<Rightarrow> int" where
  "shortest_lead x =
    (case lead_bounds x of (d, lo, hi) \<Rightarrow>
       if round_double hi = Fin x
          \<and> (round_double lo \<noteq> Fin x \<or> hi - x < x - lo \<or> (hi - x = x - lo \<and> odd d))
       then (if d = 9 then 1 else d + 1)
       else d)"

definition js_trunc :: "rat \<Rightarrow> int" where
  "js_trunc r = (if 0 \<le> r then \<lfloor>r\<rfloor> else \<lceil>r\<rceil>)"

fun parseInt_num :: "jsnum \<Rightarrow> jsnum" where
  "parseInt_num (Fin r) =
    (if r = 0 then Fin 0
     else if 1 / 10 ^ 6 \<le> \<bar>r\<bar> \<and> \<bar>r\<bar> < 10 ^ 21 then Fin (of_int (js_trunc r))
     else Fin (of_int (if r < 0 then - shortest_lead \<bar>r\<bar> else shortest_lead \<bar>r\<bar>)))"
| "parseInt_num NaN = NaN"
| "parseInt_num PosInf = NaN"
| "parseInt_num NegInf = NaN"

text \<open>\<^verbatim>\<open>parseInt(x)\<close> is \<^verbatim>\<open>parseInt(String(x))\<close>; of an array only the first element
  counts, as for \<^verbatim>\<open>parseFloat\<close>.\<close>

fun parseInt :: "json \<Rightarrow> jsnum" where
  "parseInt (JNum n) = parseInt_num n"
| "parseInt (JStr s) = parseInt_str s"
| "parseInt (JArr (JNum n # xs)) = parseInt_num n"
| "parseInt (JArr (JStr s # xs)) = parseInt_str s"
| "parseInt (JArr (JArr ys # xs)) = parseInt (JArr ys)"
| "parseInt _ = NaN"


text \<open>\<^verbatim>\<open>xs.slice(0, end)\<close>: \<open>NaN\<close> counts as 0, a negative end counts from the back.\<close>

fun slice0 :: "'a list \<Rightarrow> jsnum \<Rightarrow> 'a list" where
  "slice0 xs (Fin r) =
    (if js_trunc r < 0 then take (nat (int (length xs) + js_trunc r)) xs
     else take (nat (js_trunc r)) xs)"
| "slice0 xs NaN = []"
| "slice0 xs PosInf = xs"
| "slice0 xs NegInf = []"

text \<open>The value of \<^verbatim>\<open>:id\<close>. Express takes the path segment and decodes its percent
  escapes (\<^verbatim>\<open>decodeURIComponent\<close>) before the handler runs: the handler sees the decoded
  string in \<^verbatim>\<open>req.params.id\<close>. When the segment cannot be decoded (\<^verbatim>\<open>%\<close>, \<^verbatim>\<open>3%\<close>, \<^verbatim>\<open>%zz\<close>,
  ...) no handler runs: Express raises an error with the message below, and the request
  ends in the service's error-handling middleware.\<close>

datatype id_param =
    Param string          \<comment> \<open>the decoded value\<close>
  | Undecodable string    \<comment> \<open>the segment as it came, not a valid percent-encoding\<close>

definition decode_error_message :: "string \<Rightarrow> string" where
  "decode_error_message segment = ''Failed to decode param '' @ [CHR 0x27] @ segment @ [CHR 0x27]"

text \<open>\<^verbatim>\<open>xs.findIndex(p)\<close>, with \<open>None\<close> for \<open>-1\<close>.\<close>

fun findIndex :: "('a \<Rightarrow> bool) \<Rightarrow> 'a list \<Rightarrow> nat option" where
  "findIndex p [] = None"
| "findIndex p (x # xs) = (if p x then Some 0 else map_option Suc (findIndex p xs))"

text \<open>\<^verbatim>\<open>xs.splice(i, 1)\<close>: the list without its element at \<open>i\<close>.\<close>

definition splice1 :: "nat \<Rightarrow> 'a list \<Rightarrow> 'a list" where
  "splice1 i xs = take i xs @ drop (Suc i) xs"

section \<open>The users service\<close>

text \<open>
  The store is the module's two variables: the array \<^verbatim>\<open>users\<close> and the counter
  \<^verbatim>\<open>nextUserId\<close>. Identifiers are the integers the counter hands out (it stays far
  below \<open>2\<^sup>5\<^sup>3\<close>, where a double stops counting, in any run that can take place); the
  other fields hold whatever JSON value the request carried. \<^verbatim>\<open>updatedAt\<close> is absent
  until the first update. The time stamp \<^verbatim>\<open>new Date().toISOString()\<close> is the
  argument \<open>now\<close> of each handler.
\<close>

record user =
  user_id :: int
  user_name :: json
  user_email :: json
  user_role :: json
  user_createdAt :: string
  user_updatedAt :: "string option"

record users_store =
  users :: "user list"
  nextUserId :: int

definition users_init :: users_store where
  "users_init =
    \<lparr>users =
      [\<lparr>user_id = 1, user_name = JStr ''John Doe'', user_email = JStr ''john.doe@example.com'',
        user_role = JStr ''admin'', user_createdAt = ''2024-01-01T00:00:00.000Z'',
        user_updatedAt = None\<rparr>,
       \<lparr>user_id = 2, user_name = JStr ''Jane Smith'', user_email = JStr ''jane.smith@example.com'',
        user_role = JStr ''user'', user_createdAt = ''2024-01-15T00:00:00.000Z'',
        user_updatedAt = None\<rparr>,
       \<lparr>user_id = 3, user_name = JStr ''Bob Johnson'', user_email = JStr ''bob.johnson@example.com'',
        user_role = JStr ''user'', user_createdAt = ''2024-02-01T00:00:00.000Z'',
        user_updatedAt = None\<rparr>],
     nextUserId = 4\<rparr>"

text \<open>The JSON bodies the service answers with, by shape.\<close>

datatype users_body =
    UsersList nat "user list"      \<comment> \<open>\<^verbatim>\<open>{count, users}\<close>\<close>
  | UserRecord user                \<comment> \<open>the record itself\<close>
  | UserNotFound jsnum             \<comment> \<open>\<^verbatim>\<open>{error: 'User not found', userId}\<close>\<close>
  | UserError string               \<comment> \<open>\<^verbatim>\<open>{error}\<close>\<close>
  | UserMessage string user        \<comment> \<open>\<^verbatim>\<open>{message, user}\<close>\<close>
  | UserServerError string         \<comment> \<open>\<^verbatim>\<open>{error: 'Internal server error', message}\<close>\<close>

type_synonym users_response = "nat \<times> users_body"

text \<open>\<^verbatim>\<open>u.id === userId\<close>, with \<open>userId\<close> the result of \<^verbatim>\<open>parseInt\<close>.\<close>

definition user_has_id :: "jsnum \<Rightarrow> user \<Rightarrow> bool" where
  "user_has_id userId u = (userId = Fin (of_int (user_id u)))"

text \<open>\<^verbatim>\<open>app.get('/users')\<close>; \<open>query\<close> is \<^verbatim>\<open>req.query\<close>.\<close>

definition get_users :: "json \<Rightarrow> users_store \<Rightarrow> users_response" where
  "get_users query st =
    (let role = field query ''role'';
         limit = field query ''limit'';
         filteredUsers = users st;
         filteredUsers = (if truthy role
                          then filter (\<lambda>user. strict_eq (user_role user) role) filteredUsers
                          else filteredUsers);
         filteredUsers = (if truthy limit
                          then slice0 filteredUsers (parseInt limit)
                          else filteredUsers)
     in (200, UsersList (length filteredUsers) filteredUsers))"

text \<open>The handler of \<^verbatim>\<open>app.get('/users/:id')\<close>; \<open>idParam\<close> is \<^verbatim>\<open>req.params.id\<close>, the
  decoded segment (for a segment that cannot be decoded see \<open>users_handle\<close>).\<close>

definition get_user :: "string \<Rightarrow> users_store \<Rightarrow> users_response" where
  "get_user idParam st =
    (let userId = parseInt_str idParam
     in case List.find (user_has_id userId) (users st) of
          None \<Rightarrow> (404, UserNotFound userId)
        | Some user \<Rightarrow> (200, UserRecord user))"

text \<open>\<^verbatim>\<open>app.post('/users')\<close>; \<open>body\<close> is \<^verbatim>\<open>req.body\<close>.\<close>

definition post_users :: "string \<Rightarrow> json \<Rightarrow> users_store \<Rightarrow> users_response \<times> users_store" where
  "post_users now body st =
    (let name = field body ''name'';
         email = field body ''email'';
         role = field body ''role''
     in if \<not> truthy name \<or> \<not> truthy email
        then ((400, UserError ''Name and email are required''), st)
        else if List.find (\<lambda>u. strict_eq (user_email u) email) (users st) \<noteq> None
        then ((409, UserError ''User with this email already exists''), st)
        else
         (let newUser = \<lparr>user_id = nextUserId st, user_name = name, user_email = email,
                          user_role = (if truthy role then role else JStr ''user''),
                          user_createdAt = now, user_updatedAt = None\<rparr>
          in ((201, UserMessage ''User created successfully'' newUser),
              \<lparr>users = users st @ [newUser], nextUserId = nextUserId st + 1\<rparr>)))"

text \<open>\<^verbatim>\<open>app.put('/users/:id')\<close>.\<close>

definition put_user :: "string \<Rightarrow> string \<Rightarrow> json \<Rightarrow> users_store \<Rightarrow> users_response \<times> users_store" where
  "put_user now idParam body st =
    (let userId = parseInt_str idParam
     in case findIndex (user_has_id userId) (users st) of
          None \<Rightarrow> ((404, UserNotFound userId), st)
        | Some userIndex \<Rightarrow>
           (let name = field body ''name'';
                email = field body ''email'';
                role = field body ''role'';
                u = users st ! userIndex
            in if truthy email \<and> \<not> strict_eq email (user_email u)
                  \<and> List.find (\<lambda>u. strict_eq (user_email u) email) (users st) \<noteq> None
               then ((409, UserError ''User with this email already exists''), st)
               else
                (let u = (if truthy name then u\<lparr>user_name := name\<rparr> else u);
                     u = (if truthy email then u\<lparr>user_email := email\<rparr> else u);
                     u = (if truthy role then u\<lparr>user_role := role\<rparr> else u);
                     u = u\<lparr>user_updatedAt := Some now\<rparr>
                 in ((200, UserMessage ''User updated successfully'' u),
                     st\<lparr>users := (users st)[userIndex := u]\<rparr>))))"

text \<open>\<^verbatim>\<open>app.delete('/users/:id')\<close>.\<close>

definition delete_user :: "string \<Rightarrow> users_store \<Rightarrow> users_response \<times> users_store" where
  "delete_user idParam st =
    (let userId = parseInt_str idParam
     in case findIndex (user_has_id userId) (users st) of
          None \<Rightarrow> ((404, UserNotFound userId), st)
        | Some userIndex \<Rightarrow>
            ((200, UserMessage ''User deleted successfully'' (users st ! userIndex)),
             st\<lparr>users := splice1 userIndex (users st)\<rparr>))"

text \<open>The error-handling middleware (\<^verbatim>\<open>app.use((err, req, res, next) => ...)\<close>), with
  \<^verbatim>\<open>err.message\<close> as argument.\<close>

definition users_error_handler :: "string \<Rightarrow> users_response" where
  "users_error_handler message = (500, UserServerError message)"

text \<open>The requests on the five routes over the store, each with the time it is handled
  at, and a run of the service over a sequence of them (the handlers run one at a time,
  each to its end). A request whose \<^verbatim>\<open>:id\<close> segment cannot be decoded goes to the error
  handler and leaves the store alone. So does, on any route, a request whose body
  \<^verbatim>\<open>express.json()\<close> refuses (text that is not a JSON object or array, a body over the
  size limit): the parser runs before the routes and hands its error to the error
  handler. The remaining routes (\<^verbatim>\<open>/health\<close>, \<^verbatim>\<open>/\<close>, \<^verbatim>\<open>/stats/users\<close>) only read.\<close>

datatype users_request =
    GetUsers json
  | GetUser id_param
  | PostUsers string json
  | PutUser string id_param json
  | DeleteUser id_param
  | UsersBodyRejected string   \<comment> \<open>the message of the parser's error\<close>

fun users_handle :: "users_request \<Rightarrow> users_store \<Rightarrow> users_response \<times> users_store" where
  "users_handle (GetUsers query) st = (get_users query st, st)"
| "users_handle (GetUser (Param idParam)) st = (get_user idParam st, st)"
| "users_handle (PostUsers now body) st = post_users now body st"
| "users_handle (PutUser now (Param idParam) body) st = put_user now idParam body st"
| "users_handle (DeleteUser (Param idParam)) st = delete_user idParam st"
| "users_handle (GetUser (Undecodable segment)) st =
     (users_error_handler (decode_error_message segment), st)"
| "users_handle (PutUser now (Undecodable segment) body) st =
     (users_error_handler (decode_error_message segment), st)"
| "users_handle (DeleteUser (Undecodable segment)) st =
     (users_error_handler (decode_error_message segment), st)"
| "users_handle (UsersBodyRejected message) st = (users_error_handler message, st)"

fun users_run :: "users_request list \<Rightarrow> users_store \<Rightarrow> users_response list \<times> users_store" where
  "users_run [] st = ([], st)"
| "users_run (r # rs) st =
    (case users_handle r st of
       (resp, st') \<Rightarrow> (case users_run rs st' of (resps, st'') \<Rightarrow> (resp # resps, st'')))"

text \<open>The identifiers a list of responses reports as created (status 201).\<close>

fun created_user_ids :: "users_response list \<Rightarrow> int list" where
  "created_user_ids [] = []"
| "created_user_ids ((status, UserMessage m u) # rs) =
    (if status = 201 then user_id u # created_user_ids rs else created_user_ids rs)"
| "created_user_ids (r # rs) = created_user_ids rs"

section \<open>The products service\<close>

text \<open>
  Same shape as the users service. A stored price is always a number: a seed, or the
  result of \<^verbatim>\<open>parseFloat\<close>. A stored stock is the request's own value after
  \<^verbatim>\<open>POST\<close> (\<^verbatim>\<open>stock || 0\<close>) and the result of \<^verbatim>\<open>parseInt\<close> after \<^verbatim>\<open>PUT\<close> and \<^verbatim>\<open>PATCH\<close>.
  The seed prices are written as the decimal literals of the source; each stands for
  the double next to it, and the handlers only compare a price with 0.
\<close>

record product =
  product_id :: int
  product_name :: json
  product_description :: json
  product_price :: jsnum
  product_category :: json
  product_stock :: json
  product_createdAt :: string
  product_updatedAt :: "string option"

record products_store =
  products :: "product list"
  nextProductId :: int

definition products_init :: products_store where
  "products_init =
    \<lparr>products =
      [\<lparr>product_id = 1, product_name = JStr ''Laptop Pro X1'',
        product_description = JStr ''High-performance laptop for professionals'',
        product_price = Fin (129999 / 100), product_category = JStr ''Electronics'',
        product_stock = JNum (Fin 45), product_createdAt = ''2024-01-10T00:00:00.000Z'',
        product_updatedAt = None\<rparr>,
       \<lparr>product_id = 2, product_name = JStr ''Wireless Mouse'',
        product_description = JStr ''Ergonomic wireless mouse with precision tracking'',
        product_price = Fin (2999 / 100), product_category = JStr ''Accessories'',
        product_stock = JNum (Fin 150), product_createdAt = ''2024-01-15T00:00:00.000Z'',
        product_updatedAt = None\<rparr>,
       \<lparr>product_id = 3, product_name = JStr ''USB-C Hub'',
        product_description = JStr ''7-in-1 USB-C hub with HDMI, USB 3.0, and card reader'',
        product_price = Fin (4999 / 100), product_category = JStr ''Accessories'',
        product_stock = JNum (Fin 80), product_createdAt = ''2024-02-01T00:00:00.000Z'',
        product_updatedAt = None\<rparr>,
       \<lparr>product_id = 4, product_name = JStr ''Mechanical Keyboard'',
        product_description = JStr ''RGB mechanical gaming keyboard with Cherry MX switches'',
        product_price = Fin (15999 / 100), product_category = JStr ''Accessories'',
        product_stock = JNum (Fin 60), product_createdAt = ''2024-02-05T00:00:00.000Z'',
        product_updatedAt = None\<rparr>,
       \<lparr>product_id = 5, product_name = JStr ''4K Monitor'',
        product_description = JStr ''27-inch 4K IPS monitor with HDR support'',
        product_price = Fin (39999 / 100), product_category = JStr ''Electronics'',
        product_stock = JNum (Fin 25), product_createdAt = ''2024-02-10T00:00:00.000Z'',
        product_updatedAt = None\<rparr>],
     nextProductId = 6\<rparr>"

datatype products_body =
    ProductRecord product            \<comment> \<open>the record itself\<close>
  | ProductNotFound jsnum            \<comment> \<open>\<^verbatim>\<open>{error: 'Product not found', productId}\<close>\<close>
  | ProductError string              \<comment> \<open>\<^verbatim>\<open>{error}\<close>\<close>
  | ProductMessage string product    \<comment> \<open>\<^verbatim>\<open>{message, product}\<close>\<close>
  | ProductServerError string        \<comment> \<open>\<^verbatim>\<open>{error: 'Internal server error', message}\<close>\<close>

type_synonym products_response = "nat \<times> products_body"

definition product_has_id :: "jsnum \<Rightarrow> product \<Rightarrow> bool" where
  "product_has_id productId p = (productId = Fin (of_int (product_id p)))"

text \<open>The handler of \<^verbatim>\<open>app.get('/products/:id')\<close>, on the decoded segment (for a segment
  that cannot be decoded see \<open>products_handle\<close>).\<close>

definition get_product :: "string \<Rightarrow> products_store \<Rightarrow> products_response" where
  "get_product idParam st =
    (let productId = parseInt_str idParam
     in case List.find (product_has_id productId) (products st) of
          None \<Rightarrow> (404, ProductNotFound productId)
        | Some product \<Rightarrow> (200, ProductRecord product))"

text \<open>\<^verbatim>\<open>app.post('/products')\<close>.\<close>

definition post_products ::
  "string \<Rightarrow> json \<Rightarrow> products_store \<Rightarrow> products_response \<times> products_store" where
  "post_products now body st =
    (let name = field body ''name'';
         description = field body ''description'';
         price = field body ''price'';
         category = field body ''category'';
         stock = field body ''stock''
     in if \<not> truthy name \<or> \<not> truthy price \<or> \<not> truthy category
        then ((400, ProductError ''Name, price, and category are required''), st)
        else if le_zero price
        then ((400, ProductError ''Price must be greater than 0''), st)
        else
         (let newProduct =
                \<lparr>product_id = nextProductId st, product_name = name,
                 product_description = (if truthy description then description else JStr []),
                 product_price = parseFloat price, product_category = category,
                 product_stock = (if truthy stock then stock else JNum (Fin 0)),
                 product_createdAt = now, product_updatedAt = None\<rparr>
          in ((201, ProductMessage ''Product created successfully'' newProduct),
              \<lparr>products = products st @ [newProduct], nextProductId = nextProductId st + 1\<rparr>)))"

text \<open>\<^verbatim>\<open>app.put('/products/:id')\<close>.\<close>

definition put_product ::
  "string \<Rightarrow> string \<Rightarrow> json \<Rightarrow> products_store \<Rightarrow> products_response \<times> products_store" where
  "put_product now idParam body st =
    (let productId = parseInt_str idParam
     in case findIndex (product_has_id productId) (products st) of
          None \<Rightarrow> ((404, ProductNotFound productId), st)
        | Some productIndex \<Rightarrow>
           (let name = field body ''name'';
                description = field body ''description'';
                price = field body ''price'';
                category = field body ''category'';
                stock = field body ''stock'';
                p = products st ! productIndex
            in if price \<noteq> JUndefined \<and> le_zero price
               then ((400, ProductError ''Price must be greater than 0''), st)
               else
                (let p = (if truthy name then p\<lparr>product_name := name\<rparr> else p);
                     p = (if description \<noteq> JUndefined
                          then p\<lparr>product_description := description\<rparr> else p);
                     p = (if truthy price then p\<lparr>product_price := parseFloat price\<rparr> else p);
                     p = (if truthy category then p\<lparr>product_category := category\<rparr> else p);
                     p = (if stock \<noteq> JUndefined
                          then p\<lparr>product_stock := JNum (parseInt stock)\<rparr> else p);
                     p = p\<lparr>product_updatedAt := Some now\<rparr>
                 in ((200, ProductMessage ''Product updated successfully'' p),
                     st\<lparr>products := (products st)[productIndex := p]\<rparr>))))"

text \<open>\<^verbatim>\<open>app.delete('/products/:id')\<close>.\<close>

definition delete_product :: "string \<Rightarrow> products_store \<Rightarrow> products_response \<times> products_store" where
  "delete_product idParam st =
    (let productId = parseInt_str idParam
     in case findIndex (product_has_id productId) (products st) of
          None \<Rightarrow> ((404, ProductNotFound productId), st)
        | Some productIndex \<Rightarrow>
            ((200, ProductMessage ''Product deleted successfully'' (products st ! productIndex)),
             st\<lparr>products := splice1 productIndex (products st)\<rparr>))"

text \<open>\<^verbatim>\<open>app.patch('/products/:id/stock')\<close>. The source takes the record with
  \<^verbatim>\<open>products.find\<close> and assigns to its fields, which changes the first matching element
  of the array in place: the element at \<open>findIndex\<close>.\<close>

definition patch_stock ::
  "string \<Rightarrow> string \<Rightarrow> json \<Rightarrow> products_store \<Rightarrow> products_response \<times> products_store" where
  "patch_stock now idParam body st =
    (let productId = parseInt_str idParam
     in case findIndex (product_has_id productId) (products st) of
          None \<Rightarrow> ((404, ProductNotFound productId), st)
        | Some productIndex \<Rightarrow>
           (let quantity = field body ''quantity''
            in if quantity = JUndefined
               then ((400, ProductError ''Quantity is required''), st)
               else
                (let product = (products st ! productIndex)
                                 \<lparr>product_stock := JNum (parseInt quantity),
                                  product_updatedAt := Some now\<rparr>
                 in ((200, ProductMessage ''Stock updated successfully'' product),
                     st\<lparr>products := (products st)[productIndex := product]\<rparr>))))"

text \<open>The error-handling middleware, as in the users service.\<close>

definition products_error_handler :: "string \<Rightarrow> products_response" where
  "products_error_handler message = (500, ProductServerError message)"

text \<open>The requests on the five routes that take part in the claims, and the request
  whose body \<^verbatim>\<open>express.json()\<close> refuses, as in the users service; the other routes
  (\<^verbatim>\<open>/products\<close> with its filters, \<^verbatim>\<open>/search\<close>, \<^verbatim>\<open>/categories\<close>, \<^verbatim>\<open>/stats/products\<close>,
  \<^verbatim>\<open>/health\<close>, \<^verbatim>\<open>/\<close>) only read the store.\<close>

datatype products_request =
    GetProduct id_param
  | PostProducts string json
  | PutProduct string id_param json
  | DeleteProduct id_param
  | PatchStock string id_param json
  | ProductsBodyRejected string

fun products_handle ::
  "products_request \<Rightarrow> products_store \<Rightarrow> products_response \<times> products_store" where
  "products_handle (GetProduct (Param idParam)) st = (get_product idParam st, st)"
| "products_handle (PostProducts now body) st = post_products now body st"
| "products_handle (PutProduct now (Param idParam) body) st = put_product now idParam body st"
| "products_handle (DeleteProduct (Param idParam)) st = delete_product idParam st"
| "products_handle (PatchStock now (Param idParam) body) st = patch_stock now idParam body st"
| "products_handle (GetProduct (Undecodable segment)) st =
     (products_error_handler (decode_error_message segment), st)"
| "products_handle (PutProduct now (Undecodable segment) body) st =
     (products_error_handler (decode_error_message segment), st)"
| "products_handle (DeleteProduct (Undecodable segment)) st =
     (products_error_handler (decode_error_message segment), st)"
| "products_handle (PatchStock now (Undecodable segment) body) st =
     (products_error_handler (decode_error_message segment), st)"
| "products_handle (ProductsBodyRejected message) st = (products_error_handler message, st)"

fun products_run ::
  "products_request list \<Rightarrow> products_store \<Rightarrow> products_response list \<times> products_store" where
  "products_run [] st = ([], st)"
| "products_run (r # rs) st =
    (case products_handle r st of
       (resp, st') \<Rightarrow> (case products_run rs st' of (resps, st'') \<Rightarrow> (resp # resps, st'')))"

fun created_product_ids :: "products_response list \<Rightarrow> int list" where
  "created_product_ids [] = []"
| "created_product_ids ((status, ProductMessage m p) # rs) =
    (if status = 201 then product_id p # created_product_ids rs else created_product_ids rs)"
| "created_product_ids (r # rs) = created_product_ids rs"

section \<open>The gateway\<close>

text \<open>
  Each handler makes one \<^verbatim>\<open>axios\<close> call and answers from its outcome. The network and
  the service behind it are a function from the request sent to what comes back: a
  status with a body, or no response at all (connection refused, reset, ...) with the
  message of the error. \<^verbatim>\<open>axios\<close> resolves on a status from 200 to 299 and rejects
  otherwise, with \<^verbatim>\<open>error.response\<close> set when there was a response. A handler returns
  the request it sent together with its answer.
\<close>

datatype http_method = GET | POST | PUT | DELETE | PATCH

record outbound_request =
  out_method :: http_method
  out_url :: string
  out_data :: "json option"

datatype backend_reply = Reply nat json | NoReply string

datatype axios_result =
    Resolved nat json                    \<comment> \<open>\<^verbatim>\<open>response.status\<close>, \<^verbatim>\<open>response.data\<close>\<close>
  | Rejected "nat option" string         \<comment> \<open>\<^verbatim>\<open>error.response.status\<close> if any, \<^verbatim>\<open>error.message\<close>\<close>

definition digit_char :: "nat \<Rightarrow> char" where
  "digit_char d = char_of (48 + d)"

fun show_nat :: "nat \<Rightarrow> string" where
  "show_nat n = (if n < 10 then [digit_char n] else show_nat (n div 10) @ [digit_char (n mod 10)])"

declare show_nat.simps [simp del]

definition axios :: "(outbound_request \<Rightarrow> backend_reply) \<Rightarrow> outbound_request \<Rightarrow> axios_result" where
  "axios backend rq =
    (case backend rq of
       Reply status d \<Rightarrow>
         if 200 \<le> status \<and> status < 300 then Resolved status d
         else Rejected (Some status) (''Request failed with status code '' @ show_nat status)
     | NoReply message \<Rightarrow> Rejected None message)"

text \<open>The two base addresses come from the environment.\<close>

record config =
  USERS_SERVICE_URL :: string
  PRODUCTS_SERVICE_URL :: string

type_synonym gateway_response = "nat \<times> json"

text \<open>The \<^verbatim>\<open>catch\<close> blocks: the routes without \<^verbatim>\<open>:id\<close> answer 500 to every rejection,
  the routes with \<^verbatim>\<open>:id\<close> answer 404 when \<^verbatim>\<open>error.response.status === 404\<close>.\<close>

definition failed :: "string \<Rightarrow> string \<Rightarrow> gateway_response" where
  "failed what message = (500, JObj [(''error'', JStr what), (''message'', JStr message)])"

definition not_found_or_failed ::
  "string \<Rightarrow> string \<Rightarrow> nat option \<Rightarrow> string \<Rightarrow> gateway_response" where
  "not_found_or_failed missing what status message =
    (if status = Some 404 then (404, JObj [(''error'', JStr missing)])
     else failed what message)"

definition api_get_users ::
  "config \<Rightarrow> (outbound_request \<Rightarrow> backend_reply) \<Rightarrow> outbound_request \<times> gateway_response" where
  "api_get_users cfg backend =
    (let rq = \<lparr>out_method = GET, out_url = USERS_SERVICE_URL cfg @ ''/users'', out_data = None\<rparr>
     in (rq, case axios backend rq of
               Resolved status d \<Rightarrow> (200, d)
             | Rejected status message \<Rightarrow> failed ''Failed to fetch users'' message))"

definition api_get_user ::
  "config \<Rightarrow> (outbound_request \<Rightarrow> backend_reply) \<Rightarrow> string \<Rightarrow> outbound_request \<times> gateway_response" where
  "api_get_user cfg backend idParam =
    (let rq = \<lparr>out_method = GET, out_url = USERS_SERVICE_URL cfg @ ''/users/'' @ idParam,
               out_data = None\<rparr>
     in (rq, case axios backend rq of
               Resolved status d \<Rightarrow> (200, d)
             | Rejected status message \<Rightarrow>
                 not_found_or_failed ''User not found'' ''Failed to fetch user'' status message))"

definition api_post_users ::
  "config \<Rightarrow> (outbound_request \<Rightarrow> backend_reply) \<Rightarrow> json \<Rightarrow> outbound_request \<times> gateway_response" where
  "api_post_users cfg backend body =
    (let rq = \<lparr>out_method = POST, out_url = USERS_SERVICE_URL cfg @ ''/users'',
               out_data = Some body\<rparr>
     in (rq, case axios backend rq of
               Resolved status d \<Rightarrow> (201, d)
             | Rejected status message \<Rightarrow> failed ''Failed to create user'' message))"

definition api_put_user ::
  "config \<Rightarrow> (outbound_request \<Rightarrow> backend_reply) \<Rightarrow> string \<Rightarrow> json
     \<Rightarrow> outbound_request \<times> gateway_response" where
  "api_put_user cfg backend idParam body =
    (let rq = \<lparr>out_method = PUT, out_url = USERS_SERVICE_URL cfg @ ''/users/'' @ idParam,
               out_data = Some body\<rparr>
     in (rq, case axios backend rq of
               Resolved status d \<Rightarrow> (200, d)
             | Rejected status message \<Rightarrow>
                 not_found_or_failed ''User not found'' ''Failed to update user'' status message))"

definition api_delete_user ::
  "config \<Rightarrow> (outbound_request \<Rightarrow> backend_reply) \<Rightarrow> string \<Rightarrow> outbound_request \<times> gateway_response" where
  "api_delete_user cfg backend idParam =
    (let rq = \<lparr>out_method = DELETE, out_url = USERS_SERVICE_URL cfg @ ''/users/'' @ idParam,
               out_data = None\<rparr>
     in (rq, case axios backend rq of
               Resolved status d \<Rightarrow> (200, d)
             | Rejected status message \<Rightarrow>
                 not_found_or_failed ''User not found'' ''Failed to delete user'' status message))"

definition api_get_products ::
  "config \<Rightarrow> (outbound_request \<Rightarrow> backend_reply) \<Rightarrow> outbound_request \<times> gateway_response" where
  "api_get_products cfg backend =
    (let rq = \<lparr>out_method = GET, out_url = PRODUCTS_SERVICE_URL cfg @ ''/products'',
               out_data = None\<rparr>
     in (rq, case axios backend rq of
               Resolved status d \<Rightarrow> (200, d)
             | Rejected status message \<Rightarrow> failed ''Failed to fetch products'' message))"

definition api_get_product ::
  "config \<Rightarrow> (outbound_request \<Rightarrow> backend_reply) \<Rightarrow> string \<Rightarrow> outbound_request \<times> gateway_response" where
  "api_get_product cfg backend idParam =
    (let rq = \<lparr>out_method = GET, out_url = PRODUCTS_SERVICE_URL cfg @ ''/products/'' @ idParam,
               out_data = None\<rparr>
     in (rq, case axios backend rq of
               Resolved status d \<Rightarrow> (200, d)
             | Rejected status message \<Rightarrow>
                 not_found_or_failed ''Product not found'' ''Failed to fetch product'' status message))"

definition api_post_products ::
  "config \<Rightarrow> (outbound_request \<Rightarrow> backend_reply) \<Rightarrow> json \<Rightarrow> outbound_request \<times> gateway_response" where
  "api_post_products cfg backend body =
    (let rq = \<lparr>out_method = POST, out_url = PRODUCTS_SERVICE_URL cfg @ ''/products'',
               out_data = Some body\<rparr>
     in (rq, case axios backend rq of
               Resolved status d \<Rightarrow> (201, d)
             | Rejected status message \<Rightarrow> failed ''Failed to create product'' message))"

definition api_put_product ::
  "config \<Rightarrow> (outbound_request \<Rightarrow> backend_reply) \<Rightarrow> string \<Rightarrow> json
     \<Rightarrow> outbound_request \<times> gateway_response" where
  "api_put_product cfg backend idParam body =
    (let rq = \<lparr>out_method = PUT, out_url = PRODUCTS_SERVICE_URL cfg @ ''/products/'' @ idParam,
               out_data = Some body\<rparr>
     in (rq, case axios backend rq of
               Resolved status d \<Rightarrow> (200, d)
             | Rejected status message \<Rightarrow>
                 not_found_or_failed ''Product not found'' ''Failed to update product'' status message))"

definition api_delete_product ::
  "config \<Rightarrow> (outbound_request \<Rightarrow> backend_reply) \<Rightarrow> string \<Rightarrow> outbound_request \<times> gateway_response" where
  "api_delete_product cfg backend idParam =
    (let rq = \<lparr>out_method = DELETE, out_url = PRODUCTS_SERVICE_URL cfg @ ''/products/'' @ idParam,
               out_data = None\<rparr>
     in (rq, case axios backend rq of
               Resolved status d \<Rightarrow> (200, d)
             | Rejected status message \<Rightarrow>
                 not_found_or_failed ''Product not found'' ''Failed to delete product'' status message))"

text \<open>An incoming request after Express has matched its path: the path with the value
  of \<^verbatim>\<open>:id\<close>, the query string as it came, and the parsed body. The router tries the ten
  proxying routes in turn; a request that matches none reaches the final 404 handler,
  which sends nothing to a backend. (\<open>OtherPath\<close> is any path but \<^verbatim>\<open>/health\<close> and \<^verbatim>\<open>/\<close>,
  the two routes the gateway answers by itself.)\<close>

datatype gateway_path =
    ApiUsers
  | ApiUsersId string
  | ApiProducts
  | ApiProductsId string
  | OtherPath string

record gateway_request =
  req_method :: http_method
  req_path :: gateway_path
  req_query :: string
  req_body :: json

fun path_string :: "gateway_path \<Rightarrow> string" where
  "path_string ApiUsers = ''/api/users''"
| "path_string (ApiUsersId i) = ''/api/users/'' @ i"
| "path_string ApiProducts = ''/api/products''"
| "path_string (ApiProductsId i) = ''/api/products/'' @ i"
| "path_string (OtherPath p) = p"

fun route ::
  "config \<Rightarrow> (outbound_request \<Rightarrow> backend_reply) \<Rightarrow> http_method \<Rightarrow> gateway_path \<Rightarrow> json
     \<Rightarrow> (outbound_request \<times> gateway_response) option" where
  "route cfg backend GET ApiUsers body = Some (api_get_users cfg backend)"
| "route cfg backend GET (ApiUsersId i) body = Some (api_get_user cfg backend i)"
| "route cfg backend POST ApiUsers body = Some (api_post_users cfg backend body)"
| "route cfg backend PUT (ApiUsersId i) body = Some (api_put_user cfg backend i body)"
| "route cfg backend DELETE (ApiUsersId i) body = Some (api_delete_user cfg backend i)"
| "route cfg backend GET ApiProducts body = Some (api_get_products cfg backend)"
| "route cfg backend GET (ApiProductsId i) body = Some (api_get_product cfg backend i)"
| "route cfg backend POST ApiProducts body = Some (api_post_products cfg backend body)"
| "route cfg backend PUT (ApiProductsId i) body = Some (api_put_product cfg backend i body)"
| "route cfg backend DELETE (ApiProductsId i) body = Some (api_delete_product cfg backend i)"
| "route cfg backend m p body = None"

definition gateway ::
  "config \<Rightarrow> (outbound_request \<Rightarrow> backend_reply) \<Rightarrow> gateway_request
     \<Rightarrow> outbound_request option \<times> gateway_response" where
  "gateway cfg backend req =
    (case route cfg backend (req_method req) (req_path req) (req_body req) of
       Some (rq, resp) \<Rightarrow> (Some rq, resp)
     | None \<Rightarrow>
        (None, (404, JObj [(''error'', JStr ''Not found''),
                           (''path'', JStr (path_string (req_path req)))])))"

section \<open>The data model's conditions on a product\<close>

text \<open>The two conditions the product record is meant to meet, as predicates on the
  stored values: the price is a number above 0, the stock is an integer that is not
  negative.\<close>

fun positive_price :: "jsnum \<Rightarrow> bool" where
  "positive_price (Fin r) = (0 < r)"
| "positive_price PosInf = True"
| "positive_price NaN = False"
| "positive_price NegInf = False"



section \<open>Facts about rounding, and evaluating the scanners\<close>

lemma bit_length_nonneg: "0 \<le> bit_length n"
proof (induction n rule: bit_length.induct)
  case (1 n)
  show ?case
  proof (cases "n \<le> 0")
    case True
    then show ?thesis by (simp add: bit_length.simps)
  next
    case False
    with "1.IH" have "0 \<le> bit_length (n div 2)" by simp
    with False show ?thesis by (subst bit_length.simps) simp
  qed
qed

lemma bit_length_pos: "1 \<le> n \<Longrightarrow> 1 \<le> bit_length n"
  using bit_length_nonneg[of "n div 2"] by (subst bit_length.simps) simp

lemma bit_length_le: "n < 2 ^ b \<Longrightarrow> bit_length n \<le> int b"
proof (induction b arbitrary: n)
  case 0
  then show ?case by (simp add: bit_length.simps)
next
  case (Suc b)
  show ?case
  proof (cases "n \<le> 0")
    case True
    then show ?thesis by (simp add: bit_length.simps)
  next
    case False
    from Suc.prems have "n div 2 < 2 ^ b" by simp
    then have "bit_length (n div 2) \<le> int b" by (rule Suc.IH)
    with False show ?thesis by (subst bit_length.simps) simp
  qed
qed

lemma round_half_even_of_int: "round_half_even (of_int k) = k"
  by (simp add: round_half_even_def)

lemma round_double_minus: "round_double (- r) = negate (round_double r)"
  by (simp add: round_double_def Let_def)

lemma round_double_small_int:
  assumes "0 < k" and "k < 2 ^ 53"
  shows "round_double (of_int k) = Fin (of_int k)"
proof -
  define b where "b = bit_length k"
  have b1: "1 \<le> b" unfolding b_def using assms(1) by (intro bit_length_pos) simp
  have b53: "b \<le> 53" unfolding b_def using bit_length_le[of k 53] assms(2) by simp
  define n where "n = nat (53 - b)"
  have il: "ilog2 (of_int k) = b - 1"
    using assms(1) by (simp add: ilog2_def b_def)
  have q: "max (ilog2 (of_int k)) (- 1022) - 52 = - int n"
    using b1 b53 by (simp add: il n_def)
  have p: "pow2 (- int n) = 1 / 2 ^ n"
    by (auto simp: pow2_def)
  have d: "(of_int k :: rat) / pow2 (- int n) = of_int (k * 2 ^ n)"
    by (simp add: p)
  have m: "round_half_even ((of_int k :: rat) / pow2 (- int n)) = k * 2 ^ n"
    unfolding d by (rule round_half_even_of_int)
  have v: "(of_int (k * 2 ^ n) :: rat) * pow2 (- int n) = of_int k"
    by (simp add: p)
  have "(of_int k :: rat) < of_int (2 ^ 53)" using assms(2) by (simp only: of_int_less_iff)
  then have "(of_int k :: rat) < 2 ^ 53" by simp
  moreover have "(2 :: rat) ^ 53 < 2 ^ 1024" by simp
  ultimately have small: "\<not> (2 :: rat) ^ 1024 \<le> of_int k" by linarith
  have pos: "(0 :: rat) < of_int k" using assms(1) by simp
  then have a: "\<bar>of_int k :: rat\<bar> = of_int k" by simp
  from pos have nz: "(of_int k :: rat) \<noteq> 0" and nn: "\<not> (of_int k :: rat) < 0" by simp_all
  show ?thesis
    unfolding round_double_def Let_def a q m v using nz nn small by simp
qed

lemma bit_length_power2: "bit_length (2 ^ n) = int n + 1"
proof (induction n)
  case 0
  show ?case by (simp add: bit_length.simps)
next
  case (Suc n)
  have "bit_length (2 ^ Suc n) = 1 + bit_length (2 ^ Suc n div 2)"
    by (subst bit_length.simps) simp
  with Suc show ?case by simp
qed

lemma round_double_2_53: "round_double (of_int (2 ^ 53)) = Fin (of_int (2 ^ 53))"
proof -
  define K :: int where "K = 2 ^ 53"
  have bl: "bit_length K = 54" unfolding K_def using bit_length_power2[of 53] by simp
  have K1: "(1 :: rat) \<le> of_int K" "(of_int K :: rat) \<noteq> 0" "\<not> (of_int K :: rat) < 0"
    "\<bar>of_int K :: rat\<bar> = of_int K"
    by (simp_all add: K_def)
  have q: "max (ilog2 (of_int K)) (- 1022) - 52 = 1"
    using K1(1) by (simp add: ilog2_def bl)
  have d: "(of_int K :: rat) / pow2 1 = of_int (2 ^ 52)" by (simp add: pow2_def K_def)
  have m: "round_half_even ((of_int K :: rat) / pow2 1) = 2 ^ 52"
    unfolding d by (rule round_half_even_of_int)
  have v: "(of_int (2 ^ 52) :: rat) * pow2 1 = of_int K" by (simp add: pow2_def K_def)
  have small: "\<not> (2 :: rat) ^ 1024 \<le> of_int K" by (simp add: K_def)
  have "round_double (of_int K) = Fin (of_int K)"
    unfolding round_double_def Let_def K1(4) q m v using K1(2,3) small by simp
  then show ?thesis by (simp only: K_def)
qed

text \<open>Every integer up to \<open>2\<^sup>5\<^sup>3\<close> in absolute value is a double.\<close>

lemma round_double_int:
  assumes "\<bar>k\<bar> \<le> 2 ^ 53"
  shows "round_double (of_int k) = Fin (of_int k)"
proof -
  have pos: "round_double (of_int j) = Fin (of_int j)" if "0 < j" "j \<le> 2 ^ 53" for j
  proof (cases "j = 2 ^ 53")
    case True
    then show ?thesis using round_double_2_53 by (simp only:)
  next
    case False
    with that show ?thesis by (intro round_double_small_int) simp_all
  qed
  consider "k = 0" | "0 < k" | "k < 0" by linarith
  then show ?thesis
  proof cases
    case 1
    then show ?thesis by (simp add: round_double_def)
  next
    case 2
    with assms show ?thesis by (intro pos) simp_all
  next
    case 3
    with assms have "round_double (of_int (- k)) = Fin (of_int (- k))" by (intro pos) simp_all
    then have "negate (round_double (of_int k)) = Fin (- of_int k)"
      using round_double_minus[of "of_int k"] by simp
    then show ?thesis by (cases "round_double (of_int k)") simp_all
  qed
qed

lemma round_double_numeral:
  "(numeral w :: int) \<le> 2 ^ 53 \<Longrightarrow> round_double (numeral w) = Fin (numeral w)"
  using round_double_int[of "numeral w"] by simp

lemma round_double_neg_numeral:
  "(numeral w :: int) \<le> 2 ^ 53 \<Longrightarrow> round_double (- numeral w) = Fin (- numeral w)"
  using round_double_int[of "- numeral w"] by simp

lemma round_double_0_1: "round_double 0 = Fin 0" "round_double 1 = Fin 1"
  using round_double_int[of 0] round_double_int[of 1] by simp_all

lemmas js_scan_defs =
  parseInt_str_def parseFloat_str_def string_to_number_def scan_decimal_def
  scan_unsigned_decimal_def scan_exponent_def radix_literal_def pow10_def
  is_space_def is_radix_digit_def digit_value_def digits_value_def
  round_double_numeral round_double_neg_numeral round_double_0_1

lemma js_scan_examples:
  "parseInt_str ''3abc'' = Fin 3" "parseInt_str ''0x1A'' = Fin 26" "parseInt_str ''abc'' = NaN"
  "parseFloat_str ''-5abc'' = Fin (- 5)" "string_to_number ''-5abc'' = NaN"
  "string_to_number '' 12 '' = Fin 12" "parseInt_str ''0'' = Fin 0"
  by (simp_all add: js_scan_defs)

section \<open>Identifiers are handed out in increasing order\<close>

lemma users_handle_created:
  "(created_user_ids [fst (users_handle r st)] = []
      \<and> nextUserId (snd (users_handle r st)) = nextUserId st)
   \<or> (created_user_ids [fst (users_handle r st)] = [nextUserId st]
      \<and> nextUserId (snd (users_handle r st)) = nextUserId st + 1)"
  by (cases "(r, st)" rule: users_handle.cases)
     (auto simp: get_users_def get_user_def post_users_def put_user_def delete_user_def
                 users_error_handler_def Let_def
           split: option.splits)

lemma created_user_ids_Cons:
  "created_user_ids (r # rs) = created_user_ids [r] @ created_user_ids rs"
proof (cases r)
  case (Pair status b)
  then show ?thesis by (cases b) auto
qed

lemma users_run_created:
  "sorted_wrt (<) (created_user_ids (fst (users_run rs st)))
   \<and> list_all (\<lambda>i. nextUserId st \<le> i) (created_user_ids (fst (users_run rs st)))
   \<and> nextUserId st \<le> nextUserId (snd (users_run rs st))"
proof (induction rs arbitrary: st)
  case Nil
  show ?case by simp
next
  case (Cons r rs)
  obtain resp st' where h: "users_handle r st = (resp, st')"
    by (cases "users_handle r st")
  obtain resps st'' where run: "users_run rs st' = (resps, st'')"
    by (cases "users_run rs st'")
  from Cons.IH[of st'] run
  have ih: "sorted_wrt (<) (created_user_ids resps)"
    "list_all (\<lambda>i. nextUserId st' \<le> i) (created_user_ids resps)"
    "nextUserId st' \<le> nextUserId st''" by simp_all
  from users_handle_created[of r st] h
  have step: "(created_user_ids [resp] = [] \<and> nextUserId st' = nextUserId st)
     \<or> (created_user_ids [resp] = [nextUserId st] \<and> nextUserId st' = nextUserId st + 1)"
    by simp
  have eq1: "fst (users_run (r # rs) st) = resp # resps"
    and eq2: "snd (users_run (r # rs) st) = st''" using h run by simp_all
  have eq3: "created_user_ids (resp # resps) = created_user_ids [resp] @ created_user_ids resps"
    by (rule created_user_ids_Cons)
  from step show ?case
  proof
    assume "created_user_ids [resp] = [] \<and> nextUserId st' = nextUserId st"
    with ih show ?thesis unfolding eq1 eq2 eq3 by simp
  next
    assume "created_user_ids [resp] = [nextUserId st] \<and> nextUserId st' = nextUserId st + 1"
    with ih show ?thesis unfolding eq1 eq2 eq3 by (fastforce simp: list_all_iff)
  qed
qed

lemma products_handle_created:
  "(created_product_ids [fst (products_handle r st)] = []
      \<and> nextProductId (snd (products_handle r st)) = nextProductId st)
   \<or> (created_product_ids [fst (products_handle r st)] = [nextProductId st]
      \<and> nextProductId (snd (products_handle r st)) = nextProductId st + 1)"
  by (cases "(r, st)" rule: products_handle.cases)
     (auto simp: get_product_def post_products_def put_product_def delete_product_def
                 patch_stock_def products_error_handler_def Let_def
           split: option.splits)

lemma created_product_ids_Cons:
  "created_product_ids (r # rs) = created_product_ids [r] @ created_product_ids rs"
proof (cases r)
  case (Pair status b)
  then show ?thesis by (cases b) auto
qed

lemma products_run_created:
  "sorted_wrt (<) (created_product_ids (fst (products_run rs st)))
   \<and> list_all (\<lambda>i. nextProductId st \<le> i) (created_product_ids (fst (products_run rs st)))
   \<and> nextProductId st \<le> nextProductId (snd (products_run rs st))"
proof (induction rs arbitrary: st)
  case Nil
  show ?case by simp
next
  case (Cons r rs)
  obtain resp st' where h: "products_handle r st = (resp, st')"
    by (cases "products_handle r st")
  obtain resps st'' where run: "products_run rs st' = (resps, st'')"
    by (cases "products_run rs st'")
  from Cons.IH[of st'] run
  have ih: "sorted_wrt (<) (created_product_ids resps)"
    "list_all (\<lambda>i. nextProductId st' \<le> i) (created_product_ids resps)"
    "nextProductId st' \<le> nextProductId st''" by simp_all
  from products_handle_created[of r st] h
  have step: "(created_product_ids [resp] = [] \<and> nextProductId st' = nextProductId st)
     \<or> (created_product_ids [resp] = [nextProductId st]
         \<and> nextProductId st' = nextProductId st + 1)"
    by simp
  have eq1: "fst (products_run (r # rs) st) = resp # resps"
    and eq2: "snd (products_run (r # rs) st) = st''" using h run by simp_all
  have eq3: "created_product_ids (resp # resps)
               = created_product_ids [resp] @ created_product_ids resps"
    by (rule created_product_ids_Cons)
  from step show ?case
  proof
    assume "created_product_ids [resp] = [] \<and> nextProductId st' = nextProductId st"
    with ih show ?thesis unfolding eq1 eq2 eq3 by simp
  next
    assume "created_product_ids [resp] = [nextProductId st]
              \<and> nextProductId st' = nextProductId st + 1"
    with ih show ?thesis unfolding eq1 eq2 eq3 by (fastforce simp: list_all_iff)
  qed
qed

lemma delete_user_counter: "nextUserId (snd (delete_user idParam st)) = nextUserId st"
  by (simp add: delete_user_def Let_def split: option.splits)

lemma delete_product_counter:
  "nextProductId (snd (delete_product idParam st)) = nextProductId st"
  by (simp add: delete_product_def Let_def split: option.splits)

text \<open>
  Claim C1. In every run of either service, from the seed data and from any other state
  of the store, the identifiers reported by the successful creates (status 201) are
  strictly increasing, none is below the counter the run started with (so, from the seed
  data, all are above the seed identifiers), the counter never decreases, and a delete
  leaves it as it was. Hence no identifier is handed out twice, whatever was deleted
  in between.
\<close>

theorem created_ids_strictly_increasing:
  "sorted_wrt (<) (map user_id (users users_init)
                    @ created_user_ids (fst (users_run urs users_init)))
   \<and> sorted_wrt (<) (map product_id (products products_init)
                    @ created_product_ids (fst (products_run prs products_init)))
   \<and> sorted_wrt (<) (created_user_ids (fst (users_run urs ust)))
   \<and> list_all (\<lambda>i. nextUserId ust \<le> i) (created_user_ids (fst (users_run urs ust)))
   \<and> nextUserId ust \<le> nextUserId (snd (users_run urs ust))
   \<and> nextUserId (snd (delete_user uid ust)) = nextUserId ust
   \<and> sorted_wrt (<) (created_product_ids (fst (products_run prs pst)))
   \<and> list_all (\<lambda>i. nextProductId pst \<le> i) (created_product_ids (fst (products_run prs pst)))
   \<and> nextProductId pst \<le> nextProductId (snd (products_run prs pst))
   \<and> nextProductId (snd (delete_product pid pst)) = nextProductId pst"
proof -
  have u: "sorted_wrt (<) (map user_id (users users_init)
                    @ created_user_ids (fst (users_run urs users_init)))"
    using users_run_created[of urs users_init]
    by (simp add: sorted_wrt_append users_init_def list_all_iff) fastforce
  have p: "sorted_wrt (<) (map product_id (products products_init)
                    @ created_product_ids (fst (products_run prs products_init)))"
    using products_run_created[of prs products_init]
    by (simp add: sorted_wrt_append products_init_def list_all_iff) fastforce
  show ?thesis
    using u p users_run_created[of urs ust] products_run_created[of prs pst]
      delete_user_counter[of uid ust] delete_product_counter[of pid pst]
    by blast
qed

section \<open>The gateway's answers\<close>

lemmas gateway_handler_defs =
  api_get_users_def api_get_user_def api_post_users_def api_put_user_def api_delete_user_def
  api_get_products_def api_get_product_def api_post_products_def api_put_product_def
  api_delete_product_def

text \<open>
  Claim C4. On each of the six routes with an \<^verbatim>\<open>:id\<close> parameter (\<^verbatim>\<open>GET\<close>, \<^verbatim>\<open>PUT\<close>,
  \<^verbatim>\<open>DELETE\<close> under \<^verbatim>\<open>/api/users/:id\<close> and \<^verbatim>\<open>/api/products/:id\<close>) the gateway sends one
  request, and its answer is decided by what comes back: a status from 200 to 299 is
  answered 200 with the body received; status 404 is answered 404 with exactly
  \<^verbatim>\<open>{error: "User not found"}\<close> or \<^verbatim>\<open>{error: "Product not found"}\<close>, whatever body the
  backend sent; every other status, and every failure without a response, is answered
  500 with \<^verbatim>\<open>error\<close> = "Failed to fetch/update/delete user/product" and the error's
  message.
\<close>

theorem gateway_id_routes_translate_failures:
  assumes "req_method req = GET \<or> req_method req = PUT \<or> req_method req = DELETE"
    and "req_path req = ApiUsersId i \<or> req_path req = ApiProductsId i"
  shows "case gateway cfg backend req of
      (None, resp) \<Rightarrow> False
    | (Some rq, resp) \<Rightarrow>
    (let verb = (case req_method req of GET \<Rightarrow> ''fetch'' | PUT \<Rightarrow> ''update'' | _ \<Rightarrow> ''delete'');
         resource = (case req_path req of ApiUsersId _ \<Rightarrow> ''user'' | _ \<Rightarrow> ''product'');
         missing = (case req_path req of ApiUsersId _ \<Rightarrow> ''User not found''
                                        | _ \<Rightarrow> ''Product not found'')
     in case backend rq of
          Reply status d \<Rightarrow>
            if 200 \<le> status \<and> status < 300 then resp = (200, d)
            else if status = 404 then resp = (404, JObj [(''error'', JStr missing)])
            else resp = (500, JObj [(''error'', JStr (''Failed to '' @ verb @ '' '' @ resource)),
                                    (''message'', JStr (''Request failed with status code ''
                                                        @ show_nat status))])
        | NoReply message \<Rightarrow>
            resp = (500, JObj [(''error'', JStr (''Failed to '' @ verb @ '' '' @ resource)),
                               (''message'', JStr message)]))"
  using assms
  by (elim disjE)
     (simp_all add: gateway_def gateway_handler_defs axios_def not_found_or_failed_def
                    failed_def Let_def
               split: backend_reply.splits)

theorem gateway_id_routes_translate_failures_witness:
  "gateway \<lparr>USERS_SERVICE_URL = ''http://192.168.56.11:3001'',
            PRODUCTS_SERVICE_URL = ''http://192.168.56.12:3002''\<rparr>
     (\<lambda>rq. Reply 404 (JObj [(''error'', JStr ''User not found''), (''userId'', JNum (Fin 999))]))
     \<lparr>req_method = GET, req_path = ApiUsersId ''999'', req_query = [], req_body = JObj []\<rparr>
   = (Some \<lparr>out_method = GET, out_url = ''http://192.168.56.11:3001/users/999'',
             out_data = None\<rparr>,
      (404, JObj [(''error'', JStr ''User not found'')]))
   \<and> snd (gateway \<lparr>USERS_SERVICE_URL = ''http://192.168.56.11:3001'',
            PRODUCTS_SERVICE_URL = ''http://192.168.56.12:3002''\<rparr>
     (\<lambda>rq. NoReply ''connect ECONNREFUSED 192.168.56.12:3002'')
     \<lparr>req_method = DELETE, req_path = ApiProductsId ''2'', req_query = [], req_body = JObj []\<rparr>)
   = (500, JObj [(''error'', JStr ''Failed to delete product''),
                 (''message'', JStr ''connect ECONNREFUSED 192.168.56.12:3002'')])"
  using gateway_id_routes_translate_failures
    [where req = "\<lparr>req_method = GET, req_path = ApiUsersId ''999'', req_query = [],
                   req_body = JObj []\<rparr>"
       and i = "''999''"
       and cfg = "\<lparr>USERS_SERVICE_URL = ''http://192.168.56.11:3001'',
                   PRODUCTS_SERVICE_URL = ''http://192.168.56.12:3002''\<rparr>"
       and backend = "\<lambda>rq. Reply 404 (JObj [(''error'', JStr ''User not found''),
                                             (''userId'', JNum (Fin 999))])"]
    gateway_id_routes_translate_failures
    [where req = "\<lparr>req_method = DELETE, req_path = ApiProductsId ''2'', req_query = [],
                   req_body = JObj []\<rparr>"
       and i = "''2''"
       and cfg = "\<lparr>USERS_SERVICE_URL = ''http://192.168.56.11:3001'',
                   PRODUCTS_SERVICE_URL = ''http://192.168.56.12:3002''\<rparr>"
       and backend = "\<lambda>rq. NoReply ''connect ECONNREFUSED 192.168.56.12:3002''"]
  by (auto simp: gateway_def gateway_handler_defs Let_def)




section \<open>The users service: create, update, list\<close>

lemma findIndex_Some:
  "findIndex p xs = Some i \<Longrightarrow> i < length xs \<and> p (xs ! i) \<and> List.find p xs = Some (xs ! i)"
proof (induction xs arbitrary: i)
  case Nil
  then show ?case by simp
next
  case (Cons x xs)
  then show ?case by (cases "p x") auto
qed

lemma find_update_at_findIndex:
  "findIndex p xs = Some i \<Longrightarrow> p y \<Longrightarrow> List.find p (xs[i := y]) = Some y"
proof (induction xs arbitrary: i)
  case Nil
  then show ?case by simp
next
  case (Cons x xs)
  then show ?case by (cases "p x") auto
qed




lemma find_None_list_ex: "(List.find p xs = None) = (\<not> list_ex p xs)"
  by (induction xs) simp_all

lemma find_Some_list_ex: "(\<exists>y. List.find p xs = Some y) = list_ex p xs"
  using find_None_list_ex[of p xs] by (cases "List.find p xs") simp_all

text \<open>
  Claim C3. Let \<open>idParam\<close> name a stored user (\<open>findIndex\<close> finds it at \<open>i\<close>), and let
  \<open>name\<close>, \<open>email\<close>, \<open>role\<close> be the three fields of the body. \<^verbatim>\<open>PUT /users/:id\<close> answers 409
  and leaves the store as it was exactly when \<open>email\<close> is given (truthy), differs from the
  user's own email and equals the email of a stored user. In every other case it answers
  200, and the store afterwards is the store before with that one record replaced by
  the record sent back: in it each of \<open>name\<close>, \<open>email\<close>, \<open>role\<close> holds the body's value when
  the body gives one (truthy) and its prior value when the body does not supply it (or
  supplies a falsy value such as the empty string), \<open>updatedAt\<close> is the time of the update,
  and \<open>id\<close> and \<open>createdAt\<close> are as before; the other records and the counter are
  untouched. With the body \<^verbatim>\<open>{role: "x"}\<close> the answer is 200, and \<^verbatim>\<open>GET /users/:id\<close> then
  returns the record with role \<^verbatim>\<open>"x"\<close> and the name and email it had.
\<close>

theorem put_user_overwrites_only_supplied_fields:
  assumes "findIndex (user_has_id (parseInt_str idParam)) (users st) = Some i"
  shows "put_user now idParam body st =
      (let name = field body ''name'';
           email = field body ''email'';
           role = field body ''role'';
           u = users st ! i;
           u' = u\<lparr>user_name := (if truthy name then name else user_name u),
                  user_email := (if truthy email then email else user_email u),
                  user_role := (if truthy role then role else user_role u),
                  user_updatedAt := Some now\<rparr>
       in if truthy email \<and> \<not> strict_eq email (user_email u)
             \<and> list_ex (\<lambda>v. strict_eq (user_email v) email) (users st)
          then ((409, UserError ''User with this email already exists''), st)
          else ((200, UserMessage ''User updated successfully'' u'),
                st\<lparr>users := (users st)[i := u']\<rparr>))
    \<and> (\<exists>u'. put_user now idParam (JObj [(''role'', JStr ''x'')]) st
               = ((200, UserMessage ''User updated successfully'' u'),
                  st\<lparr>users := (users st)[i := u']\<rparr>)
          \<and> get_user idParam (st\<lparr>users := (users st)[i := u']\<rparr>) = (200, UserRecord u')
          \<and> user_role u' = JStr ''x''
          \<and> user_name u' = user_name (users st ! i)
          \<and> user_email u' = user_email (users st ! i)
          \<and> user_id u' = user_id (users st ! i)
          \<and> user_createdAt u' = user_createdAt (users st ! i)
          \<and> user_updatedAt u' = Some now)"
proof (rule conjI)
  show "put_user now idParam body st =
      (let name = field body ''name'';
           email = field body ''email'';
           role = field body ''role'';
           u = users st ! i;
           u' = u\<lparr>user_name := (if truthy name then name else user_name u),
                  user_email := (if truthy email then email else user_email u),
                  user_role := (if truthy role then role else user_role u),
                  user_updatedAt := Some now\<rparr>
       in if truthy email \<and> \<not> strict_eq email (user_email u)
             \<and> list_ex (\<lambda>v. strict_eq (user_email v) email) (users st)
          then ((409, UserError ''User with this email already exists''), st)
          else ((200, UserMessage ''User updated successfully'' u'),
                st\<lparr>users := (users st)[i := u']\<rparr>))"
    using assms by (simp add: put_user_def Let_def find_None_list_ex find_Some_list_ex)
next
  let ?u = "(users st ! i)\<lparr>user_role := JStr ''x'', user_updatedAt := Some now\<rparr>"
  have put: "put_user now idParam (JObj [(''role'', JStr ''x'')]) st
               = ((200, UserMessage ''User updated successfully'' ?u),
                  st\<lparr>users := (users st)[i := ?u]\<rparr>)"
    using assms by (simp add: put_user_def Let_def)
  from findIndex_Some[OF assms]
  have "user_has_id (parseInt_str idParam) (users st ! i)" by simp
  then have "user_has_id (parseInt_str idParam) ?u" by (simp add: user_has_id_def)
  from find_update_at_findIndex[OF assms this]
  have "get_user idParam (st\<lparr>users := (users st)[i := ?u]\<rparr>) = (200, UserRecord ?u)"
    by (simp add: get_user_def)
  with put show "\<exists>u'. put_user now idParam (JObj [(''role'', JStr ''x'')]) st
               = ((200, UserMessage ''User updated successfully'' u'),
                  st\<lparr>users := (users st)[i := u']\<rparr>)
          \<and> get_user idParam (st\<lparr>users := (users st)[i := u']\<rparr>) = (200, UserRecord u')
          \<and> user_role u' = JStr ''x''
          \<and> user_name u' = user_name (users st ! i)
          \<and> user_email u' = user_email (users st ! i)
          \<and> user_id u' = user_id (users st ! i)
          \<and> user_createdAt u' = user_createdAt (users st ! i)
          \<and> user_updatedAt u' = Some now"
    by (intro exI[of _ ?u]) simp
qed

theorem put_user_overwrites_only_supplied_fields_witness:
  "findIndex (user_has_id (parseInt_str ''2'')) (users users_init) = Some 1
   \<and> get_user ''2'' (snd (put_user ''2024-03-01T10:00:00.000Z'' ''2''
                            (JObj [(''role'', JStr ''x'')]) users_init))
     = (200, UserRecord
          \<lparr>user_id = 2, user_name = JStr ''Jane Smith'',
           user_email = JStr ''jane.smith@example.com'', user_role = JStr ''x'',
           user_createdAt = ''2024-01-15T00:00:00.000Z'',
           user_updatedAt = Some ''2024-03-01T10:00:00.000Z''\<rparr>)"
proof -
  have h: "findIndex (user_has_id (parseInt_str ''2'')) (users users_init) = Some 1"
    by (simp add: users_init_def user_has_id_def js_scan_defs)
  from put_user_overwrites_only_supplied_fields
         [OF h, where now = "''2024-03-01T10:00:00.000Z''" and body = "JObj []",
          THEN conjunct2]
  obtain u' where
    "put_user ''2024-03-01T10:00:00.000Z'' ''2'' (JObj [(''role'', JStr ''x'')]) users_init
       = ((200, UserMessage ''User updated successfully'' u'),
          users_init\<lparr>users := (users users_init)[1 := u']\<rparr>)"
    "get_user ''2'' (users_init\<lparr>users := (users users_init)[1 := u']\<rparr>) = (200, UserRecord u')"
    "user_role u' = JStr ''x''"
    "user_name u' = user_name (users users_init ! 1)"
    "user_email u' = user_email (users users_init ! 1)"
    by blast
  moreover have "put_user ''2024-03-01T10:00:00.000Z'' ''2'' (JObj [(''role'', JStr ''x'')]) users_init
     = ((200, UserMessage ''User updated successfully''
          \<lparr>user_id = 2, user_name = JStr ''Jane Smith'',
           user_email = JStr ''jane.smith@example.com'', user_role = JStr ''x'',
           user_createdAt = ''2024-01-15T00:00:00.000Z'',
           user_updatedAt = Some ''2024-03-01T10:00:00.000Z''\<rparr>),
        users_init\<lparr>users := (users users_init)
          [1 := \<lparr>user_id = 2, user_name = JStr ''Jane Smith'',
           user_email = JStr ''jane.smith@example.com'', user_role = JStr ''x'',
           user_createdAt = ''2024-01-15T00:00:00.000Z'',
           user_updatedAt = Some ''2024-03-01T10:00:00.000Z''\<rparr>]\<rparr>)"
    using h by (simp add: put_user_def Let_def users_init_def)
  ultimately show ?thesis using h by simp
qed

lemma js_trunc_of_int: "js_trunc (of_int n) = n"
  by (simp add: js_trunc_def)

text \<open>
  Claim C8, as the code has it. \<^verbatim>\<open>GET /users\<close> answers 200 with \<^verbatim>\<open>{count, users}\<close>, where
  \<open>count\<close> is the length of \<open>users\<close>. The list is: all users, kept to those whose role
  equals (\<^verbatim>\<open>===\<close>) \<open>role\<close> when \<open>role\<close> is given (truthy); then, when \<open>limit\<close> is absent or
  empty, left as it is; when \<open>limit\<close> is a string that \<^verbatim>\<open>parseInt\<close> reads as an integer
  \<open>n \<ge> 0\<close>, cut to its first \<open>n\<close> records; and when \<open>limit\<close> is a non-empty string in
  which \<^verbatim>\<open>parseInt\<close> finds no integer, empty (\<^verbatim>\<open>slice(0, NaN)\<close>).
\<close>

theorem get_users_filter_then_limit:
  "(\<exists>r. get_users query st = (200, UsersList (length r) r))
   \<and> (let role = field query ''role'';
           limit = field query ''limit'';
           filtered = (if truthy role
                       then filter (\<lambda>u. strict_eq (user_role u) role) (users st)
                       else users st)
       in (limit = JUndefined \<or> limit = JStr []
             \<longrightarrow> get_users query st = (200, UsersList (length filtered) filtered))
        \<and> (limit = JStr s \<and> s \<noteq> [] \<and> parseInt_str s = Fin (of_int n) \<and> 0 \<le> n
             \<longrightarrow> get_users query st
                   = (200, UsersList (length (take (nat n) filtered)) (take (nat n) filtered)))
        \<and> (limit = JStr s \<and> s \<noteq> [] \<and> parseInt_str s = NaN
             \<longrightarrow> get_users query st = (200, UsersList 0 [])))"
  by (simp add: get_users_def Let_def js_trunc_of_int)

theorem get_users_filter_then_limit_witness:
  "get_users (JObj [(''role'', JStr ''user''), (''limit'', JStr ''1'')]) users_init
   = (200, UsersList 1
        [\<lparr>user_id = 2, user_name = JStr ''Jane Smith'',
          user_email = JStr ''jane.smith@example.com'', user_role = JStr ''user'',
          user_createdAt = ''2024-01-15T00:00:00.000Z'', user_updatedAt = None\<rparr>])"
proof -
  have p: "parseInt_str ''1'' = Fin (of_int 1)" by (simp add: js_scan_defs)
  show ?thesis
    using get_users_filter_then_limit
            [where query = "JObj [(''role'', JStr ''user''), (''limit'', JStr ''1'')]"
               and st = users_init and s = "''1''" and n = 1]
    by (simp add: p Let_def users_init_def)
qed

text \<open>The claim as stated fails: with the non-numeric limit \<^verbatim>\<open>abc\<close> the three seed users
  are not returned in full; the list is empty.\<close>

theorem get_users_non_numeric_limit_counterexample:
  "get_users (JObj [(''limit'', JStr ''abc'')]) users_init = (200, UsersList 0 [])
   \<and> length (users users_init) = 3"
  by (simp add: get_users_def users_init_def Let_def js_scan_defs)

section \<open>The \<open>:id\<close> parameter\<close>

lemma decimal_digit_cases:
  "is_radix_digit 10 c \<Longrightarrow>
     c = CHR ''0'' \<or> c = CHR ''1'' \<or> c = CHR ''2'' \<or> c = CHR ''3'' \<or> c = CHR ''4''
     \<or> c = CHR ''5'' \<or> c = CHR ''6'' \<or> c = CHR ''7'' \<or> c = CHR ''8'' \<or> c = CHR ''9''"
  by (simp add: is_radix_digit_def digit_value_def split: if_splits)

lemma decimal_digit_plain:
  assumes "is_radix_digit 10 c"
  shows "\<not> is_space c" "c \<noteq> CHR ''-''" "c \<noteq> CHR ''+''" "c \<noteq> CHR ''x''" "c \<noteq> CHR ''X''"
  using decimal_digit_cases[OF assms] by (auto simp: is_space_def)

lemma takeWhile_digits_prefix:
  assumes "list_all p ds" and "rest = [] \<or> \<not> p (hd rest)"
  shows "takeWhile p (ds @ rest) = ds"
proof -
  have "takeWhile p rest = []" using assms(2) by (cases rest) auto
  with assms(1) show ?thesis by (simp add: list_all_iff takeWhile_append2)
qed

lemma parseInt_str_decimal_prefix:
  assumes ds: "ds \<noteq> []" "list_all (is_radix_digit 10) ds"
    and rest: "rest = [] \<or> \<not> is_radix_digit 10 (hd rest)"
    and nohex: "take 2 (ds @ rest) \<noteq> ''0x''" "take 2 (ds @ rest) \<noteq> ''0X''"
  shows "parseInt_str (ds @ rest) = round_double (of_int (digits_value 10 ds))"
proof -
  obtain d ds' where dsc: "ds = d # ds'" using ds(1) by (cases ds) auto
  with ds(2) have d: "is_radix_digit 10 d" by simp
  have sp: "dropWhile is_space (ds @ rest) = ds @ rest"
    using decimal_digit_plain(1)[OF d] dsc by simp
  have sg: "take 1 (ds @ rest) \<noteq> ''-''" "take 1 (ds @ rest) \<noteq> ''+''"
    using decimal_digit_plain(2,3)[OF d] dsc by simp_all
  have tw: "takeWhile (is_radix_digit 10) (ds @ rest) = ds"
    by (rule takeWhile_digits_prefix[OF ds(2) rest])
  show ?thesis
    unfolding parseInt_str_def Let_def sp using sg nohex tw ds(1) by simp
qed

text \<open>
  Claim C10, as the code has it. Take \<^verbatim>\<open>GET /users/:id\<close> and \<^verbatim>\<open>GET /products/:id\<close>. When
  Express cannot decode the path segment (\<^verbatim>\<open>%\<close>, \<^verbatim>\<open>3%\<close>, ...), or when the request
  carries a body that \<^verbatim>\<open>express.json()\<close> refuses, no handler runs and the service's
  error middleware answers 500 with the message of the error. Otherwise the
  answer is decided by \<^verbatim>\<open>parseInt\<close> of the decoded string \<open>s\<close>: 200 with the first record
  whose id equals \<^verbatim>\<open>parseInt(s)\<close>, and 404 with that number when there is none. So two
  strings with the same \<^verbatim>\<open>parseInt\<close> get the same answer; decimal digits followed by
  anything that does not start with a digit get the answer of the digits alone, unless
  the string starts with \<^verbatim>\<open>0x\<close> or \<^verbatim>\<open>0X\<close> (which \<^verbatim>\<open>parseInt\<close> reads as hexadecimal); and a
  string in which \<^verbatim>\<open>parseInt\<close> finds no integer, in particular any non-empty string whose
  first character is not white space, a sign or a digit, is answered 404.
\<close>

theorem get_by_id_parses_leading_integer:
  "users_handle (GetUser (Param s)) ust =
     ((case List.find (\<lambda>u. parseInt_str s = Fin (of_int (user_id u))) (users ust) of
         None \<Rightarrow> (404, UserNotFound (parseInt_str s))
       | Some u \<Rightarrow> (200, UserRecord u)), ust)
   \<and> products_handle (GetProduct (Param s)) pst =
     ((case List.find (\<lambda>p. parseInt_str s = Fin (of_int (product_id p))) (products pst) of
         None \<Rightarrow> (404, ProductNotFound (parseInt_str s))
       | Some p \<Rightarrow> (200, ProductRecord p)), pst)
   \<and> users_handle (GetUser (Undecodable segment)) ust =
     ((500, UserServerError (decode_error_message segment)), ust)
   \<and> products_handle (GetProduct (Undecodable segment)) pst =
     ((500, ProductServerError (decode_error_message segment)), pst)
   \<and> users_handle (UsersBodyRejected message) ust = ((500, UserServerError message), ust)
   \<and> products_handle (ProductsBodyRejected message) pst =
     ((500, ProductServerError message), pst)
   \<and> (ds \<noteq> [] \<and> list_all (is_radix_digit 10) ds \<and> (rest = [] \<or> \<not> is_radix_digit 10 (hd rest))
      \<and> take 2 (ds @ rest) \<noteq> ''0x'' \<and> take 2 (ds @ rest) \<noteq> ''0X''
    \<longrightarrow> users_handle (GetUser (Param (ds @ rest))) ust = users_handle (GetUser (Param ds)) ust
        \<and> products_handle (GetProduct (Param (ds @ rest))) pst
          = products_handle (GetProduct (Param ds)) pst)
   \<and> (parseInt_str s = NaN
    \<longrightarrow> users_handle (GetUser (Param s)) ust = ((404, UserNotFound NaN), ust)
        \<and> products_handle (GetProduct (Param s)) pst = ((404, ProductNotFound NaN), pst))
   \<and> (s \<noteq> [] \<and> \<not> is_space (hd s) \<and> hd s \<noteq> CHR ''-'' \<and> hd s \<noteq> CHR ''+''
        \<and> \<not> is_radix_digit 10 (hd s)
    \<longrightarrow> parseInt_str s = NaN)"
proof (intro conjI impI)
  show "users_handle (GetUser (Param s)) ust =
     ((case List.find (\<lambda>u. parseInt_str s = Fin (of_int (user_id u))) (users ust) of
         None \<Rightarrow> (404, UserNotFound (parseInt_str s))
       | Some u \<Rightarrow> (200, UserRecord u)), ust)"
    by (simp add: get_user_def Let_def user_has_id_def[abs_def])
  show "products_handle (GetProduct (Param s)) pst =
     ((case List.find (\<lambda>p. parseInt_str s = Fin (of_int (product_id p))) (products pst) of
         None \<Rightarrow> (404, ProductNotFound (parseInt_str s))
       | Some p \<Rightarrow> (200, ProductRecord p)), pst)"
    by (simp add: get_product_def Let_def product_has_id_def[abs_def])
  show "users_handle (GetUser (Undecodable segment)) ust =
     ((500, UserServerError (decode_error_message segment)), ust)"
    by (simp add: users_error_handler_def)
  show "products_handle (GetProduct (Undecodable segment)) pst =
     ((500, ProductServerError (decode_error_message segment)), pst)"
    by (simp add: products_error_handler_def)
  show "users_handle (UsersBodyRejected message) ust = ((500, UserServerError message), ust)"
    by (simp add: users_error_handler_def)
  show "products_handle (ProductsBodyRejected message) pst =
     ((500, ProductServerError message), pst)"
    by (simp add: products_error_handler_def)
next
  assume a: "ds \<noteq> [] \<and> list_all (is_radix_digit 10) ds
      \<and> (rest = [] \<or> \<not> is_radix_digit 10 (hd rest))
      \<and> take 2 (ds @ rest) \<noteq> ''0x'' \<and> take 2 (ds @ rest) \<noteq> ''0X''"
  obtain d ds' where dsc: "ds = d # ds'" using a by (cases ds) auto
  with a have d: "is_radix_digit 10 d" and ds': "list_all (is_radix_digit 10) ds'" by simp_all
  have nohex: "take 2 (ds @ []) \<noteq> ''0x''" "take 2 (ds @ []) \<noteq> ''0X''"
  proof -
    have "take 2 ds = ''0x'' \<or> take 2 ds = ''0X'' \<Longrightarrow> False"
    proof (cases ds')
      case Nil
      assume "take 2 ds = ''0x'' \<or> take 2 ds = ''0X''"
      with dsc Nil show False by simp
    next
      case (Cons e es)
      assume "take 2 ds = ''0x'' \<or> take 2 ds = ''0X''"
      with dsc Cons have "e = CHR ''x'' \<or> e = CHR ''X''" by auto
      moreover from ds' Cons have "is_radix_digit 10 e" by simp
      ultimately show False using decimal_digit_plain(4,5) by blast
    qed
    then show "take 2 (ds @ []) \<noteq> ''0x''" "take 2 (ds @ []) \<noteq> ''0X''" by auto
  qed
  have "parseInt_str (ds @ rest) = round_double (of_int (digits_value 10 ds))"
    using a by (intro parseInt_str_decimal_prefix) simp_all
  moreover have "parseInt_str (ds @ []) = round_double (of_int (digits_value 10 ds))"
    using a nohex by (intro parseInt_str_decimal_prefix) simp_all
  ultimately have eq: "parseInt_str (ds @ rest) = parseInt_str ds" by simp
  show "users_handle (GetUser (Param (ds @ rest))) ust = users_handle (GetUser (Param ds)) ust"
    by (simp add: get_user_def eq)
  show "products_handle (GetProduct (Param (ds @ rest))) pst
          = products_handle (GetProduct (Param ds)) pst"
    by (simp add: get_product_def eq)
next
  assume n: "parseInt_str s = NaN"
  have "List.find (user_has_id NaN) (users ust) = None"
    by (simp add: find_None_iff user_has_id_def)
  then show "users_handle (GetUser (Param s)) ust = ((404, UserNotFound NaN), ust)"
    by (simp add: get_user_def n)
  have "List.find (product_has_id NaN) (products pst) = None"
    by (simp add: find_None_iff product_has_id_def)
  then show "products_handle (GetProduct (Param s)) pst = ((404, ProductNotFound NaN), pst)"
    by (simp add: get_product_def n)
next
  assume a: "s \<noteq> [] \<and> \<not> is_space (hd s) \<and> hd s \<noteq> CHR ''-'' \<and> hd s \<noteq> CHR ''+''
        \<and> \<not> is_radix_digit 10 (hd s)"
  then obtain c cs where sc: "s = c # cs" by (cases s) auto
  with a have c: "\<not> is_space c" "c \<noteq> CHR ''-''" "c \<noteq> CHR ''+''" "\<not> is_radix_digit 10 c"
    by simp_all
  have c0: "c \<noteq> CHR ''0''" using c(4) by (auto simp: is_radix_digit_def digit_value_def)
  show "parseInt_str s = NaN"
    unfolding parseInt_str_def Let_def sc using c c0 by simp
qed

theorem get_by_id_parses_leading_integer_witness:
  "users_handle (GetUser (Param ''3abc'')) users_init
     = users_handle (GetUser (Param ''3'')) users_init
   \<and> users_handle (GetUser (Param ''3'')) users_init
     = ((200, UserRecord
          \<lparr>user_id = 3, user_name = JStr ''Bob Johnson'',
           user_email = JStr ''bob.johnson@example.com'', user_role = JStr ''user'',
           user_createdAt = ''2024-02-01T00:00:00.000Z'', user_updatedAt = None\<rparr>), users_init)
   \<and> users_handle (GetUser (Param ''abc'')) users_init = ((404, UserNotFound NaN), users_init)
   \<and> products_handle (GetProduct (Param ''abc'')) products_init
     = ((404, ProductNotFound NaN), products_init)"
proof -
  have digits: "list_all (is_radix_digit 10) ''3''" "\<not> is_radix_digit 10 (hd ''abc'')"
    "\<not> is_space (hd ''abc'')"
    by (simp_all add: is_radix_digit_def digit_value_def is_space_def)
  have three: "users_handle (GetUser (Param ''3'')) users_init
     = ((200, UserRecord
          \<lparr>user_id = 3, user_name = JStr ''Bob Johnson'',
           user_email = JStr ''bob.johnson@example.com'', user_role = JStr ''user'',
           user_createdAt = ''2024-02-01T00:00:00.000Z'', user_updatedAt = None\<rparr>), users_init)"
    by (simp add: get_user_def users_init_def user_has_id_def js_scan_defs)
  have nan: "parseInt_str ''abc'' = NaN" by (simp add: js_scan_defs)
  have pre: "''3'' \<noteq> [] \<and> list_all (is_radix_digit 10) ''3''
      \<and> (''abc'' = [] \<or> \<not> is_radix_digit 10 (hd ''abc''))
      \<and> take 2 (''3'' @ ''abc'') \<noteq> ''0x'' \<and> take 2 (''3'' @ ''abc'') \<noteq> ''0X''"
    using digits by simp
  from get_by_id_parses_leading_integer
            [where ds = "''3''" and rest = "''abc''" and s = "''abc''"
               and ust = users_init and pst = products_init and segment = "''%''"]
       pre nan
  have "users_handle (GetUser (Param (''3'' @ ''abc''))) users_init
          = users_handle (GetUser (Param ''3'')) users_init"
    and "users_handle (GetUser (Param ''abc'')) users_init = ((404, UserNotFound NaN), users_init)"
    and "products_handle (GetProduct (Param ''abc'')) products_init
          = ((404, ProductNotFound NaN), products_init)"
    by blast+
  with three show ?thesis by simp
qed

text \<open>The claim as stated fails twice. The path string \<^verbatim>\<open>0x3\<close> has the leading digit 0,
  yet \<^verbatim>\<open>GET /users/0x3\<close> returns the user with identifier 3 while \<^verbatim>\<open>GET /users/0\<close> is
  answered 404. And \<^verbatim>\<open>GET /users/%\<close>, a path with no leading integer, is answered 500:
  Express cannot decode the segment, and the error middleware takes the request.\<close>

theorem get_user_hex_prefix_counterexample:
  "users_handle (GetUser (Param ''0x3'')) users_init
     = ((200, UserRecord
          \<lparr>user_id = 3, user_name = JStr ''Bob Johnson'',
           user_email = JStr ''bob.johnson@example.com'', user_role = JStr ''user'',
           user_createdAt = ''2024-02-01T00:00:00.000Z'', user_updatedAt = None\<rparr>), users_init)
   \<and> users_handle (GetUser (Param ''0'')) users_init
     = ((404, UserNotFound (Fin 0)), users_init)
   \<and> users_handle (GetUser (Undecodable ''%'')) users_init
     = ((500, UserServerError (decode_error_message ''%'')), users_init)"
  by (simp add: get_user_def users_init_def user_has_id_def users_error_handler_def js_scan_defs)

section \<open>The products service: stock and price\<close>


lemma floor_numeral_quotient:
  "\<lfloor>numeral a / (numeral b :: rat)\<rfloor> = numeral a div numeral b"
  using floor_divide_of_int_eq [of "numeral a" "numeral b", where ?'a = rat] by simp

text \<open>Evaluating \<open>round_double\<close> at a positive number, step by step.\<close>

lemma round_double_eval:
  assumes "0 < r" and "ilog2 r = e" and "- 1022 \<le> e"
    and "round_half_even (r / pow2 (e - 52)) = m"
    and "rat_of_int m * pow2 (e - 52) = v"
  shows "round_double r = (if 2 ^ 1024 \<le> v then PosInf else Fin v)"
  using assms unfolding round_double_def Let_def by (simp add: max_def)






text \<open>\<^verbatim>\<open>parseInt\<close> of a number: an integer below \<open>10\<^sup>2\<^sup>1\<close> is returned as it is, a number
  that is not negative gives an integer that is not negative, a number at or below
  \<open>-1\<close> gives a negative integer, and no result has a fraction.\<close>

lemma parseInt_num_integer:
  assumes "\<bar>q\<bar> < 10 ^ 21"
  shows "parseInt_num (Fin (of_int q)) = Fin (of_int q)"
proof (cases "q = 0")
  case True
  then show ?thesis by simp
next
  case False
  then have "1 \<le> \<bar>q\<bar>" by simp
  then have "(1 :: rat) \<le> \<bar>of_int q\<bar>"
    by (metis of_int_1 of_int_abs of_int_le_iff)
  moreover have "(1 :: rat) / 10 ^ 6 \<le> 1" by simp
  ultimately have lo: "(1 :: rat) / 10 ^ 6 \<le> \<bar>of_int q\<bar>" by linarith
  have "(of_int \<bar>q\<bar> :: rat) < of_int (10 ^ 21)"
    using assms by (simp only: of_int_less_iff)
  then have hi: "\<bar>of_int q :: rat\<bar> < 10 ^ 21" by simp
  from False lo hi show ?thesis by (simp add: js_trunc_def)
qed






lemma list_all_update:
  "list_all P xs \<Longrightarrow> P y \<Longrightarrow> list_all P (xs[i := y])"
  by (induction xs arbitrary: i) (auto split: nat.splits)




text \<open>The doubles next to three literals, and how \<^verbatim>\<open>parseInt\<close> reads \<open>10\<^sup>2\<^sup>1\<close>.\<close>

lemma ilog2_examples:
  "ilog2 999999999999999999999 = 69" "ilog2 1000000000000000000000 = 69"
  "ilog2 2000000000000000000000 = 70" "ilog2 9007199254740993 = 53"
  by (simp_all add: ilog2_def bit_length.simps)

lemma round_half_even_examples:
  "round_half_even (999999999999999999999 / pow2 17) = 7629394531250000"
  "round_half_even (1000000000000000000000 / pow2 17) = 7629394531250000"
  "round_half_even (2000000000000000000000 / pow2 18) = 7629394531250000"
  "round_half_even (9007199254740993 / pow2 1) = 4503599627370496"
  by (simp_all add: pow2_def round_half_even_def Let_def floor_numeral_quotient)

lemma round_double_examples:
  "round_double 999999999999999999999 = Fin 1000000000000000000000"
  "round_double 1000000000000000000000 = Fin 1000000000000000000000"
  "round_double 2000000000000000000000 = Fin 2000000000000000000000"
  "round_double 9007199254740993 = Fin 9007199254740992"
     apply (subst round_double_eval[where e = 69 and m = 7629394531250000];
            simp add: ilog2_examples round_half_even_examples; simp add: pow2_def)
    apply (subst round_double_eval[where e = 69 and m = 7629394531250000];
           simp add: ilog2_examples round_half_even_examples; simp add: pow2_def)
   apply (subst round_double_eval[where e = 70 and m = 7629394531250000];
          simp add: ilog2_examples round_half_even_examples; simp add: pow2_def)
  apply (subst round_double_eval[where e = 53 and m = 4503599627370496];
         simp add: ilog2_examples round_half_even_examples; simp add: pow2_def)
  done

lemma parseInt_num_1e21: "parseInt_num (Fin 1000000000000000000000) = Fin 1"
  by (simp add: shortest_lead_def lead_bounds_def lead_scale.simps round_double_examples)

text \<open>
  Claim C7, as the code has it. Let \<open>idParam\<close> name a stored product. The \<open>quantity\<close> of
  the body is a double: the number written in the body, rounded. When an integer \<open>q\<close>
  is written there that is a double itself (every \<open>|q| \<le> 2\<^sup>5\<^sup>3\<close> is) and \<open>|q| < 10\<^sup>2\<^sup>1\<close>
  (0 included), \<^verbatim>\<open>PATCH /products/:id/stock\<close> answers 200 and sets the stock of that
  product to exactly \<open>q\<close> (and its \<open>updatedAt\<close>), changing nothing else; the answer is
  400 exactly when \<open>quantity\<close> is absent, and then the store is as it was.
\<close>

theorem patch_stock_sets_integer_quantity:
  assumes "findIndex (product_has_id (parseInt_str idParam)) (products st) = Some i"
  shows "(field body ''quantity'' = json_number (of_int q)
          \<and> round_double (of_int q) = Fin (of_int q) \<and> \<bar>q\<bar> < 10 ^ 21
      \<longrightarrow> patch_stock now idParam body st
          = ((200, ProductMessage ''Stock updated successfully''
                ((products st ! i)\<lparr>product_stock := JNum (Fin (of_int q)),
                                   product_updatedAt := Some now\<rparr>)),
             st\<lparr>products := (products st)
                  [i := (products st ! i)\<lparr>product_stock := JNum (Fin (of_int q)),
                                           product_updatedAt := Some now\<rparr>]\<rparr>))
    \<and> (\<bar>q\<bar> \<le> 2 ^ 53 \<longrightarrow> round_double (of_int q) = Fin (of_int q) \<and> \<bar>q\<bar> < 10 ^ 21)
    \<and> ((fst (fst (patch_stock now idParam body st)) = 400)
         = (field body ''quantity'' = JUndefined))
    \<and> (field body ''quantity'' = JUndefined
      \<longrightarrow> patch_stock now idParam body st = ((400, ProductError ''Quantity is required''), st))"
proof -
  have "patch_stock now idParam body st
          = ((200, ProductMessage ''Stock updated successfully''
                ((products st ! i)\<lparr>product_stock := JNum (Fin (of_int q)),
                                   product_updatedAt := Some now\<rparr>)),
             st\<lparr>products := (products st)
                  [i := (products st ! i)\<lparr>product_stock := JNum (Fin (of_int q)),
                                           product_updatedAt := Some now\<rparr>]\<rparr>)"
    if "field body ''quantity'' = json_number (of_int q)"
      and "round_double (of_int q) = Fin (of_int q)" and "\<bar>q\<bar> < 10 ^ 21"
    using assms that parseInt_num_integer[of q]
    by (simp add: patch_stock_def Let_def json_number_def del: parseInt_num.simps)
  moreover have "round_double (of_int q) = Fin (of_int q) \<and> \<bar>q\<bar> < 10 ^ 21"
    if "\<bar>q\<bar> \<le> 2 ^ 53"
    using that round_double_int[of q] by simp
  moreover have "(fst (fst (patch_stock now idParam body st)) = 400)
         = (field body ''quantity'' = JUndefined)"
    using assms by (simp add: patch_stock_def Let_def)
  moreover have "patch_stock now idParam body st
                   = ((400, ProductError ''Quantity is required''), st)"
    if "field body ''quantity'' = JUndefined"
    using assms that by (simp add: patch_stock_def Let_def)
  ultimately show ?thesis by blast
qed

theorem patch_stock_sets_integer_quantity_witness:
  "map product_stock
     (products (snd (patch_stock ''2024-03-01T10:00:00.000Z'' ''1''
                       (JObj [(''quantity'', json_number 0)]) products_init)))
   = [JNum (Fin 0), JNum (Fin 150), JNum (Fin 80), JNum (Fin 60), JNum (Fin 25)]
   \<and> fst (fst (patch_stock ''2024-03-01T10:00:00.000Z'' ''1''
                 (JObj [(''quantity'', json_number 0)]) products_init)) = 200
   \<and> patch_stock ''2024-03-01T10:00:00.000Z'' ''1'' (JObj []) products_init
     = ((400, ProductError ''Quantity is required''), products_init)"
proof -
  have h: "findIndex (product_has_id (parseInt_str ''1'')) (products products_init) = Some 0"
    by (simp add: products_init_def product_has_id_def js_scan_defs)
  show ?thesis
    using patch_stock_sets_integer_quantity
            [OF h, where body = "JObj [(''quantity'', json_number 0)]" and q = 0
               and now = "''2024-03-01T10:00:00.000Z''"]
          patch_stock_sets_integer_quantity
            [OF h, where body = "JObj []" and q = 0 and now = "''2024-03-01T10:00:00.000Z''"]
    by (simp add: products_init_def json_number_def js_scan_defs)
qed

text \<open>The claim as stated fails. The integer quantity \<open>999999999999999999999\<close> in the
  body is the double \<open>10\<^sup>2\<^sup>1\<close>, which is printed as \<^verbatim>\<open>"1e+21"\<close> before \<^verbatim>\<open>parseInt\<close> reads
  it: the stock becomes 1. The integer quantity \<open>2\<^sup>5\<^sup>3 + 1\<close> is the double \<open>2\<^sup>5\<^sup>3\<close>, and
  that becomes the stock.\<close>

theorem patch_stock_large_quantity_counterexample:
  "map product_stock
     (products (snd (patch_stock ''2024-03-01T10:00:00.000Z'' ''1''
                       (JObj [(''quantity'', json_number 999999999999999999999)])
                       products_init)))
   = [JNum (Fin 1), JNum (Fin 150), JNum (Fin 80), JNum (Fin 60), JNum (Fin 25)]
   \<and> fst (fst (patch_stock ''2024-03-01T10:00:00.000Z'' ''1''
                 (JObj [(''quantity'', json_number 999999999999999999999)])
                 products_init)) = 200
   \<and> map product_stock
     (products (snd (patch_stock ''2024-03-01T10:00:00.000Z'' ''1''
                       (JObj [(''quantity'', json_number 9007199254740993)])
                       products_init)))
   = [JNum (Fin 9007199254740992), JNum (Fin 150), JNum (Fin 80), JNum (Fin 60),
      JNum (Fin 25)]
   \<and> fst (fst (patch_stock ''2024-03-01T10:00:00.000Z'' ''1''
                 (JObj [(''quantity'', json_number 9007199254740993)])
                 products_init)) = 200"
  using parseInt_num_1e21 parseInt_num_integer[of 9007199254740992]
  by (simp add: patch_stock_def products_init_def product_has_id_def Let_def js_scan_defs
                json_number_def round_double_examples js_trunc_def
           del: parseInt_num.simps)





text \<open>
  Claim C2 holds for prices sent as JSON numbers, and the code breaks it for other
  values. The handlers test the body's value as it came (\<^verbatim>\<open>!price\<close>, \<^verbatim>\<open>price <= 0\<close>) and
  store \<^verbatim>\<open>parseFloat(price)\<close>, which is a different number when the value is a string
  that is not a numeric literal as a whole: \<^verbatim>\<open>"-5abc" <= 0\<close> is false (the string is
  \<open>NaN\<close> as a number), and \<^verbatim>\<open>parseFloat("-5abc")\<close> is \<open>-5\<close>. So \<^verbatim>\<open>POST /products\<close> with
  that price is answered 201 and appends a record with price \<open>-5\<close>, and
  \<^verbatim>\<open>PUT /products/1\<close> with it is answered 200 and sets the price of product 1 to \<open>-5\<close>.
\<close>

theorem non_numeric_price_stored_negative:
  "fst (fst (post_products ''2024-03-01T10:00:00.000Z''
               (JObj [(''name'', JStr ''Widget''), (''price'', JStr ''-5abc''),
                      (''category'', JStr ''Misc'')]) products_init)) = 201
   \<and> map product_price
       (products (snd (post_products ''2024-03-01T10:00:00.000Z''
               (JObj [(''name'', JStr ''Widget''), (''price'', JStr ''-5abc''),
                      (''category'', JStr ''Misc'')]) products_init)))
     = [Fin (129999 / 100), Fin (2999 / 100), Fin (4999 / 100), Fin (15999 / 100),
        Fin (39999 / 100), Fin (- 5)]
   \<and> fst (fst (put_product ''2024-03-01T10:00:00.000Z'' ''1''
               (JObj [(''price'', JStr ''-5abc'')]) products_init)) = 200
   \<and> map product_price
       (products (snd (put_product ''2024-03-01T10:00:00.000Z'' ''1''
               (JObj [(''price'', JStr ''-5abc'')]) products_init)))
     = [Fin (- 5), Fin (2999 / 100), Fin (4999 / 100), Fin (15999 / 100), Fin (39999 / 100)]
   \<and> \<not> positive_price (Fin (- 5))"
  by (simp add: post_products_def put_product_def products_init_def product_has_id_def
                le_zero_def Let_def js_scan_defs)

theorem non_numeric_price_stored_negative_witness:
  "fst (fst (post_products ''2024-03-01T10:00:00.000Z''
               (JObj [(''name'', JStr ''Widget''), (''price'', JStr ''-5abc''),
                      (''category'', JStr ''Misc'')]) products_init)) = 201
   \<and> map product_price
       (products (snd (put_product ''2024-03-01T10:00:00.000Z'' ''1''
               (JObj [(''price'', JStr ''-5abc'')]) products_init)))
     = [Fin (- 5), Fin (2999 / 100), Fin (4999 / 100), Fin (15999 / 100), Fin (39999 / 100)]"
  using non_numeric_price_stored_negative by (elim conjE) (intro conjI)

text \<open>With a JSON number as price the handlers do keep every stored price above 0: a
  number that is not above 0 is answered 400 with the store as it was (\<open>NaN\<close>, which no
  JSON body can hold, is skipped by \<^verbatim>\<open>PUT\<close>), and any other number is stored as it is.\<close>

lemma numeric_price_keeps_prices_positive:
  assumes "list_all (\<lambda>p. positive_price (product_price p)) (products st)"
    and "field body ''price'' = JNum n"
  shows "list_all (\<lambda>p. positive_price (product_price p))
           (products (snd (post_products now body st)))"
    and "list_all (\<lambda>p. positive_price (product_price p))
           (products (snd (put_product now idParam body st)))"
    and "\<not> positive_price n \<Longrightarrow> fst (fst (post_products now body st)) = 400
           \<and> snd (post_products now body st) = st"
    and "\<not> positive_price n \<Longrightarrow> n \<noteq> NaN \<Longrightarrow>
           findIndex (product_has_id (parseInt_str idParam)) (products st) \<noteq> None \<Longrightarrow>
           fst (fst (put_product now idParam body st)) = 400
           \<and> snd (put_product now idParam body st) = st"
proof -
  show "list_all (\<lambda>p. positive_price (product_price p))
           (products (snd (post_products now body st)))"
    using assms by (cases n) (auto simp: post_products_def Let_def le_zero_def)
  show "list_all (\<lambda>p. positive_price (product_price p))
           (products (snd (put_product now idParam body st)))"
  proof (cases "findIndex (product_has_id (parseInt_str idParam)) (products st)")
    case None
    with assms show ?thesis by (simp add: put_product_def)
  next
    case (Some i)
    from findIndex_Some[OF Some] assms(1)
    have old: "positive_price (product_price (products st ! i))"
      by (simp add: list_all_length)
    with Some assms show ?thesis
      by (cases n) (auto simp: put_product_def Let_def le_zero_def intro!: list_all_update)
  qed
  show "\<not> positive_price n \<Longrightarrow> fst (fst (post_products now body st)) = 400
           \<and> snd (post_products now body st) = st"
    using assms(2) by (cases n) (auto simp: post_products_def Let_def le_zero_def)
  show "\<not> positive_price n \<Longrightarrow> n \<noteq> NaN \<Longrightarrow>
           findIndex (product_has_id (parseInt_str idParam)) (products st) \<noteq> None \<Longrightarrow>
           fst (fst (put_product now idParam body st)) = 400
           \<and> snd (put_product now idParam body st) = st"
    using assms(2) by (cases n) (auto simp: put_product_def Let_def le_zero_def)
qed

end
